theory Spec2Isabelle
  imports Complex_Main "HOL-Library.Sublist"
begin

section \<open>Python string and path primitives used by both scripts\<close>

text \<open>
  Both scripts run on POSIX paths. \<open>os.path.basename\<close> is the part of the path after
  its last slash; \<open>os.path.join\<close> of two components drops the first one when the second
  is absolute and inserts a slash unless the first is empty or already ends with one.
\<close>

definition basename :: "string \<Rightarrow> string" where
  "basename p = rev (takeWhile (\<lambda>c. c \<noteq> CHR ''/'') (rev p))"

definition path_join :: "string \<Rightarrow> string \<Rightarrow> string" where
  "path_join a b =
     (if b \<noteq> [] \<and> hd b = CHR ''/'' then b
      else if a = [] \<or> last a = CHR ''/'' then a @ b
      else a @ ''/'' @ b)"

text \<open>\<open>str.startswith\<close>: the receiver comes first, the prefix second.\<close>

definition startswith :: "string \<Rightarrow> string \<Rightarrow> bool" where
  "startswith s p = prefix p s"

text \<open>
  \<open>s.split(sep)\<close> for a non-empty separator, scanning left to right; \<open>acc\<close> holds the
  characters of the part being read. (Python raises ValueError on an empty separator; the
  scripts only ever pass the literal \<open>'_dn_'\<close>.)
\<close>

function py_split :: "string \<Rightarrow> string \<Rightarrow> string \<Rightarrow> string list" where
  "py_split sep acc s =
     (if sep = [] then [acc @ s]
      else if s = [] then [acc]
      else if prefix sep s then acc # py_split sep [] (drop (length sep) s)
      else py_split sep (acc @ [hd s]) (tl s))"
  by pat_completeness auto
termination
  by (relation "measure (\<lambda>(sep, acc, s). length s)") auto

declare py_split.simps [simp del]

text \<open>
  \<open>s.replace(old, new)\<close>: every non-overlapping occurrence of \<open>old\<close>, leftmost
  first, is replaced; an empty \<open>old\<close> puts \<open>new\<close> before every character and at the
  end. (The scripts pass the literals \<open>'.tif'\<close>, \<open>'.laz'\<close> and \<open>'.gpkg'\<close>.)
\<close>

function py_replace :: "string \<Rightarrow> string \<Rightarrow> string \<Rightarrow> string" where
  "py_replace old new s =
     (if old = [] then concat (map (\<lambda>c. new @ [c]) s) @ new
      else if s = [] then []
      else if prefix old s then new @ py_replace old new (drop (length old) s)
      else hd s # py_replace old new (tl s))"
  by pat_completeness auto
termination
  by (relation "measure (\<lambda>(old, new, s). length s)") auto

declare py_replace.simps [simp del]

text \<open>Python's \<open>sub in s\<close> on strings.\<close>

fun contains :: "string \<Rightarrow> string \<Rightarrow> bool" where
  "contains [] sub = (sub = [])"
| "contains (c # cs) sub = (prefix sub (c # cs) \<or> contains cs sub)"

text \<open>\<open>str(n)\<close> for an integer: decimal digits, a minus sign for negatives.\<close>

definition digit_char :: "nat \<Rightarrow> char" where
  "digit_char d = ''0123456789'' ! d"

fun str_nat :: "nat \<Rightarrow> string" where
  "str_nat n = (if n < 10 then [digit_char n] else str_nat (n div 10) @ [digit_char (n mod 10)])"

declare str_nat.simps [simp del]

definition str_int :: "int \<Rightarrow> string" where
  "str_int i = (if i < 0 then CHR ''-'' # str_nat (nat (- i)) else str_nat (nat i))"

section \<open>wa\_metadata.py: matching records to discovered files\<close>

text \<open>
  \<open>find_closest_match_datafile(datafile, basenames)\<close>. The base is the first part of
  the datafile's basename split at \<open>'_dn_'\<close>; the loop returns the first full path
  whose basename starts with the base, and \<open>None\<close> when the loop runs out.
\<close>

definition base_datafile :: "string \<Rightarrow> string" where
  "base_datafile datafile = hd (py_split ''_dn_'' [] (basename datafile))"

fun first_match :: "string \<Rightarrow> string list \<Rightarrow> string option" where
  "first_match b [] = None"
| "first_match b (fullpath # rest) =
     (if startswith (basename fullpath) b then Some fullpath else first_match b rest)"

definition find_closest_match_datafile :: "string \<Rightarrow> string list \<Rightarrow> string option" where
  "find_closest_match_datafile datafile basenames = first_match (base_datafile datafile) basenames"

section \<open>Exceptions\<close>

text \<open>
  A raised Python exception: whether its class derives from \<open>Exception\<close> (the
  handlers of the scripts are \<open>except Exception\<close>, which lets \<open>KeyboardInterrupt\<close>,
  \<open>SystemExit\<close> and other classes deriving from \<open>BaseException\<close> only pass), the name
  of its class, and the text \<open>str(e)\<close> that an f-string inserts for it.
\<close>

datatype exn = Raised (is_Exception: bool) (exn_class: string) (exn_str: string)

definition quoted :: "string \<Rightarrow> string" where
  "quoted s = [CHR 0x27] @ s @ [CHR 0x27]"

definition KeyError :: "string \<Rightarrow> exn" where
  "KeyError k = Raised True ''KeyError'' (quoted k)"

definition TypeError :: "string \<Rightarrow> exn" where
  "TypeError m = Raised True ''TypeError'' m"

definition ValueError :: "string \<Rightarrow> exn" where
  "ValueError m = Raised True ''ValueError'' m"

definition KeyboardInterrupt :: exn where
  "KeyboardInterrupt = Raised False ''KeyboardInterrupt'' []"

section \<open>Tables\<close>

text \<open>
  A pandas table is a list of named columns of equal length. Looking a column up by a
  name it does not have raises \<open>KeyError\<close>; assigning a column replaces the column of
  that name where it stands or appends a new one; a boolean mask keeps the rows whose
  mask entry is true.
\<close>

type_synonym 'c columns = "(string \<times> 'c list) list"

fun lookup_col :: "'c columns \<Rightarrow> string \<Rightarrow> exn + 'c list" where
  "lookup_col [] name = Inl (KeyError name)"
| "lookup_col ((n, vs) # cols) name = (if n = name then Inr vs else lookup_col cols name)"

fun has_col :: "'c columns \<Rightarrow> string \<Rightarrow> bool" where
  "has_col [] name = False"
| "has_col ((n, vs) # cols) name = (n = name \<or> has_col cols name)"

fun assign_col :: "'c columns \<Rightarrow> string \<Rightarrow> 'c list \<Rightarrow> 'c columns" where
  "assign_col [] name vs = [(name, vs)]"
| "assign_col ((n, old) # cols) name vs =
     (if n = name then (n, vs) # cols else (n, old) # assign_col cols name vs)"

fun mask_rows :: "bool list \<Rightarrow> 'c list \<Rightarrow> 'c list" where
  "mask_rows (m # ms) (v # vs) = (if m then v # mask_rows ms vs else mask_rows ms vs)"
| "mask_rows ms vs = []"

definition mask_cols :: "bool list \<Rightarrow> 'c columns \<Rightarrow> 'c columns" where
  "mask_cols ms cols = map (\<lambda>(n, vs). (n, mask_rows ms vs)) cols"

fun select_cols :: "'c columns \<Rightarrow> string list \<Rightarrow> exn + 'c columns" where
  "select_cols cols [] = Inr []"
| "select_cols cols (name # names) =
     (case lookup_col cols name of
        Inl e \<Rightarrow> Inl e
      | Inr vs \<Rightarrow> (case select_cols cols names of
                     Inl e \<Rightarrow> Inl e
                   | Inr rest \<Rightarrow> Inr ((name, vs) # rest)))"

definition drop_col :: "'c columns \<Rightarrow> string \<Rightarrow> exn + 'c columns" where
  "drop_col cols name =
     (if has_col cols name then Inr (filter (\<lambda>(n, vs). n \<noteq> name) cols)
      else Inl (KeyError name))"

section \<open>wa\_metadata.py: the metadata linker\<close>

text \<open>
  The cells of the vector dataset: a missing value (\<open>None\<close> or NaN), a number, a
  string or a geometry. Coordinates are real numbers. The table read from the GeoPackage
  carries its number of rows and its coordinate reference system as an EPSG code, if any.
\<close>

datatype geometry = Point real real | Polygon "(real \<times> real) list"

datatype cell = CNone | CNaN | CInt int | CFloat real | CStr string | CGeom geometry

fun isnull :: "cell \<Rightarrow> bool" where
  "isnull CNone = True"
| "isnull CNaN = True"
| "isnull c = False"

record geoframe =
  gcolumns :: "cell columns"
  grows :: nat
  crs :: "int option"

text \<open>All columns of a table have one entry per row.\<close>

definition wf_geoframe :: "geoframe \<Rightarrow> bool" where
  "wf_geoframe g = list_all (\<lambda>(n, vs). length vs = grows g) (gcolumns g)"

text \<open>
  Lines 33 to 35: without a geometry column, or with one that is null in every row, every
  row gets the placeholder \<open>Point(0, 0)\<close>.
\<close>

definition geometry_missing :: "geoframe \<Rightarrow> bool" where
  "geometry_missing meta =
     (case lookup_col (gcolumns meta) ''geometry'' of
        Inl e \<Rightarrow> True
      | Inr gs \<Rightarrow> list_all isnull gs)"

definition repair_geometry :: "geoframe \<Rightarrow> geoframe" where
  "repair_geometry meta =
     (if geometry_missing meta
      then meta\<lparr>gcolumns := assign_col (gcolumns meta) ''geometry''
                                (replicate (grows meta) (CGeom (Point 0 0)))\<rparr>
      else meta)"

text \<open>Lines 38 to 40: a table without a reference system is given EPSG:4326.\<close>

definition repair_crs :: "geoframe \<Rightarrow> geoframe" where
  "repair_crs meta = (case crs meta of None \<Rightarrow> meta\<lparr>crs := Some 4326\<rparr> | Some c \<Rightarrow> meta)"

text \<open>
  Line 43: the matcher is applied to the \<open>datafile\<close> column, top to bottom. A cell that
  is not a string makes \<open>os.path.basename\<close> raise \<open>TypeError\<close>, which ends the script.
\<close>

definition match_cell :: "string list \<Rightarrow> string \<Rightarrow> cell" where
  "match_cell basenames datafile =
     (case find_closest_match_datafile datafile basenames of
        None \<Rightarrow> CNone
      | Some fullpath \<Rightarrow> CStr fullpath)"

fun apply_matcher :: "string list \<Rightarrow> cell list \<Rightarrow> exn + cell list" where
  "apply_matcher basenames [] = Inr []"
| "apply_matcher basenames (CStr datafile # rest) =
     (case apply_matcher basenames rest of
        Inl e \<Rightarrow> Inl e
      | Inr ps \<Rightarrow> Inr (match_cell basenames datafile # ps))"
| "apply_matcher basenames (c # rest) =
     Inl (TypeError ''expected str, bytes or os.PathLike object'')"

text \<open>
  Line 63, \<open>to_crs(epsg=4326)\<close>: every geometry is sent through the coordinate
  transformation from the table's reference system to the target one, every other cell
  and column stays, and the table takes the target reference system. The transformation
  belongs to the projection library and is a parameter here. A table without a reference
  system cannot be reprojected.
\<close>

type_synonym transform = "int \<Rightarrow> int \<Rightarrow> geometry \<Rightarrow> geometry"

fun reproject_cell :: "transform \<Rightarrow> int \<Rightarrow> int \<Rightarrow> cell \<Rightarrow> cell" where
  "reproject_cell tr src dst (CGeom g) = CGeom (tr src dst g)"
| "reproject_cell tr src dst c = c"

definition to_crs :: "transform \<Rightarrow> int \<Rightarrow> geoframe \<Rightarrow> exn + geoframe" where
  "to_crs tr epsg meta =
     (case crs meta of
        None \<Rightarrow> Inl (ValueError ''Cannot transform naive geometries.'')
      | Some src \<Rightarrow>
          Inr (meta\<lparr>gcolumns := map (\<lambda>(n, vs). if n = ''geometry''
                                            then (n, map (reproject_cell tr src epsg) vs)
                                            else (n, vs)) (gcolumns meta),
                    crs := Some epsg\<rparr>))"

text \<open>
  The three files the script writes, each with its path: the table in its own reference
  system, the table in EPSG:4326, and the columns without the geometry as CSV.
\<close>

record artifacts =
  native_gpkg :: "string \<times> geoframe"
  epsg4326_gpkg :: "string \<times> geoframe"
  flat_csv :: "string \<times> cell columns"

definition metacols :: "string list" where
  "metacols = [''id'', ''transect'', ''datafile'', ''epsg'', ''random'', ''geometry'', ''filepath'']"

text \<open>
  Lines 43 to 50: the \<open>filepath\<close> column, the rows whose \<open>filepath\<close> is not null,
  the seven columns of \<open>metacols\<close>.
\<close>

definition link_and_filter :: "string list \<Rightarrow> geoframe \<Rightarrow> exn + geoframe" where
  "link_and_filter basenames meta =
     (case lookup_col (gcolumns meta) ''datafile'' of
        Inl e \<Rightarrow> Inl e
      | Inr datafiles \<Rightarrow>
          (case apply_matcher basenames datafiles of
             Inl e \<Rightarrow> Inl e
           | Inr paths \<Rightarrow>
               (let linked = assign_col (gcolumns meta) ''filepath'' paths;
                    keep = map (\<lambda>c. \<not> isnull c) paths
                in case select_cols (mask_cols keep linked) metacols of
                     Inl e \<Rightarrow> Inl e
                   | Inr cols \<Rightarrow>
                       Inr (meta\<lparr>gcolumns := cols, grows := length (filter id keep)\<rparr>))))"

text \<open>
  The script from the loaded table on (the console messages are left out): the two
  repairs, the link and the filter, then the three files. \<open>lazfiles\<close> is what the
  \<open>glob\<close> found, \<open>gdf\<close> is what \<open>gpd.read_file\<close> returned, and \<open>gpkg_fn\<close> is the
  constant of that name of the configuration module.
\<close>

definition wa_metadata ::
  "transform \<Rightarrow> string list \<Rightarrow> geoframe \<Rightarrow> string \<Rightarrow> exn + artifacts" where
  "wa_metadata tr lazfiles gdf gpkg_fn =
     (case link_and_filter lazfiles (repair_crs (repair_geometry gdf)) of
        Inl e \<Rightarrow> Inl e
      | Inr meta \<Rightarrow>
          (let gpkg_fn1 = py_replace ''.gpkg'' ''_locpaths.gpkg'' gpkg_fn;
               gpkg_fn2 = py_replace ''.gpkg'' ''_locpaths_epsg4326.gpkg'' gpkg_fn;
               csv_fn = py_replace ''.gpkg'' ''_locpaths.csv'' gpkg_fn
           in case to_crs tr 4326 meta of
                Inl e \<Rightarrow> Inl e
              | Inr meta_4326 \<Rightarrow>
                  (case drop_col (gcolumns meta) ''geometry'' of
                     Inl e \<Rightarrow> Inl e
                   | Inr df \<Rightarrow>
                       Inr \<lparr>native_gpkg = (gpkg_fn1, meta),
                            epsg4326_gpkg = (gpkg_fn2, meta_4326),
                            flat_csv = (csv_fn, df)\<rparr>)))"

section \<open>wb\_laz2tif.py: the raster converter\<close>

subsection \<open>The table read from the CSV file\<close>

text \<open>
  The cells \<open>pd.read_csv\<close> produces: integers, floats (NaN apart), strings and
  booleans. \<open>int(x)\<close> of a cell truncates a float towards zero, refuses NaN, and parses
  a string as Python does for base 10: surrounding whitespace, an optional sign, digits
  with single underscores between them; anything else raises \<open>ValueError\<close>.
\<close>

datatype csv_cell = VInt int | VFloat real | VNaN | VStr string | VBool bool

record dataframe =
  columns :: "csv_cell columns"
  nrows :: nat

definition is_space :: "char \<Rightarrow> bool" where
  "is_space c = (c \<in> set [CHR '' '', CHR 0x09, CHR 0x0A, CHR 0x0B, CHR 0x0C, CHR 0x0D,
                            CHR 0x1C, CHR 0x1D, CHR 0x1E, CHR 0x1F])"

definition strip :: "string \<Rightarrow> string" where
  "strip s = rev (dropWhile is_space (rev (dropWhile is_space s)))"

definition is_digit :: "char \<Rightarrow> bool" where
  "is_digit c = (c \<in> set ''0123456789'')"

fun digits_ok :: "bool \<Rightarrow> string \<Rightarrow> bool" where
  "digits_ok after_digit [] = after_digit"
| "digits_ok after_digit (c # cs) =
     (if is_digit c then digits_ok True cs
      else if c = CHR ''_'' \<and> after_digit then digits_ok False cs
      else False)"

definition digits_value :: "string \<Rightarrow> int" where
  "digits_value body =
     foldl (\<lambda>acc c. if is_digit c then acc * 10 + (int (of_char c) - 48) else acc) 0 body"

definition py_int_str :: "string \<Rightarrow> exn + int" where
  "py_int_str s =
     (let t = strip s;
          neg = (t \<noteq> [] \<and> hd t = CHR ''-'');
          body = (if t \<noteq> [] \<and> (hd t = CHR ''-'' \<or> hd t = CHR ''+'') then tl t else t)
      in if digits_ok False body
         then Inr (if neg then - digits_value body else digits_value body)
         else Inl (ValueError (''invalid literal for int() with base 10: '' @ quoted s)))"

fun py_int :: "csv_cell \<Rightarrow> exn + int" where
  "py_int (VInt i) = Inr i"
| "py_int (VFloat r) = Inr (if 0 \<le> r then \<lfloor>r\<rfloor> else \<lceil>r\<rceil>)"
| "py_int VNaN = Inl (ValueError ''cannot convert float NaN to integer'')"
| "py_int (VStr s) = py_int_str s"
| "py_int (VBool b) = Inr (if b then 1 else 0)"

text \<open>A series indexed by a row label outside its range raises \<open>KeyError\<close>.\<close>

definition series_at :: "'c list \<Rightarrow> nat \<Rightarrow> exn + 'c" where
  "series_at vs idx =
     (if idx < length vs then Inr (vs ! idx) else Inl (Raised True ''KeyError'' (str_nat idx)))"

subsection \<open>The world outside the program\<close>

text \<open>
  What the converter does to its surroundings is recorded in order: the lines it prints,
  the pipelines it hands to the point-cloud engine for execution, the directories it asks
  for. The world holds the paths that exist, the clock, and that record.
\<close>

datatype stage =
    Reader string
  | Filter_expression string
  | Filter_assign string
  | Filter_reprojection string
  | Filter_smrf
  | Writer_gdal (w_filename: string) (w_gdalopts: string) (w_nodata: int)
      (w_output_type: string) (w_resolution: int) (w_window_size: int)

datatype effect = Print string | Execute "stage list" | Makedirs string

record world =
  files :: "string list"
  clock :: real
  trace :: "effect list"

text \<open>
  The collaborators the program calls and does not define. Building a pipeline only
  puts stages together; executing it reads the reader's file and writes the writer's: it
  returns the lengths of the point arrays or raises, and leaves the world as it made it. \<open>os.makedirs(path, exist_ok=True)\<close>
  may raise where the directory cannot be created. The two formatters stand for the
  float formats \<open>:.2f\<close> and \<open>str\<close>.
\<close>

record env =
  pdal_execute :: "stage list \<Rightarrow> world \<Rightarrow> (exn + nat list) \<times> world"
  os_makedirs :: "string \<Rightarrow> world \<Rightarrow> exn option \<times> world"
  fmt_2f :: "real \<Rightarrow> string"
  fmt_float :: "real \<Rightarrow> string"

definition path_exists :: "world \<Rightarrow> string \<Rightarrow> bool" where
  "path_exists w p = (p \<in> set (files w))"

definition print :: "world \<Rightarrow> string \<Rightarrow> world" where
  "print w line = w\<lparr>trace := trace w @ [Print line]\<rparr>"

definition run_pipeline :: "env \<Rightarrow> stage list \<Rightarrow> world \<Rightarrow> (exn + nat list) \<times> world" where
  "run_pipeline env pipeline w =
     (let (r, w') = pdal_execute env pipeline w
      in (r, w'\<lparr>trace := trace w @ [Execute pipeline]\<rparr>))"

definition makedirs :: "env \<Rightarrow> string \<Rightarrow> world \<Rightarrow> exn option \<times> world" where
  "makedirs env path w =
     (let (r, w') = os_makedirs env path w
      in (r, w'\<lparr>trace := trace w @ [Makedirs path]\<rparr>))"

definition printed :: "world \<Rightarrow> string list" where
  "printed w = concat (map (\<lambda>e. case e of Print line \<Rightarrow> [line] | _ \<Rightarrow> []) (trace w))"

definition executed :: "world \<Rightarrow> stage list list" where
  "executed w = concat (map (\<lambda>e. case e of Execute p \<Rightarrow> [p] | _ \<Rightarrow> []) (trace w))"

text \<open>\<open>str(x)\<close> of a cell.\<close>

fun py_str :: "env \<Rightarrow> csv_cell \<Rightarrow> string" where
  "py_str env (VInt i) = str_int i"
| "py_str env (VFloat r) = fmt_float env r"
| "py_str env VNaN = ''nan''"
| "py_str env (VStr s) = s"
| "py_str env (VBool b) = (if b then ''True'' else ''False'')"

subsection \<open>laz\_to\_tif\<close>

text \<open>The pipeline operator \<open>|=\<close> appends a stage.\<close>

definition pipe :: "stage list \<Rightarrow> stage \<Rightarrow> stage list" where
  "pipe pipeline s = pipeline @ [s]"

text \<open>Lines 41 and 47: the name the writer is given.\<close>

definition renamed :: "bool \<Rightarrow> string \<Rightarrow> string" where
  "renamed reclassify tif_fn =
     (if reclassify then py_replace ''.tif'' ''_yrclf.tif'' tif_fn
      else py_replace ''.tif'' ''_nrclf.tif'' tif_fn)"

text \<open>Lines 37 to 64: the pipeline, built stage by stage as the code does.\<close>

definition build_pipeline ::
  "string \<Rightarrow> string \<Rightarrow> int \<Rightarrow> int \<Rightarrow> int \<Rightarrow> int \<Rightarrow> bool \<Rightarrow> bool \<Rightarrow> stage list" where
  "build_pipeline laz_fn tif_fn epsg_code res window_size nodata dtm reclassify =
     (let p0 = [Reader laz_fn];
          p1 = (if reclassify
                then pipe (pipe (pipe (pipe p0
                       (Filter_expression ''Classification != 7''))
                       (Filter_assign ''Classification[:]=0''))
                       (Filter_reprojection (''EPSG:'' @ str_int epsg_code)))
                       Filter_smrf
                else pipe p0 (Filter_reprojection (''EPSG:'' @ str_int epsg_code)));
          p2 = (if dtm then pipe p1 (Filter_expression ''Classification == 2'') else p1)
      in pipe p2 (Writer_gdal (renamed reclassify tif_fn) ''tiled=yes,compress=deflate''
                    nodata ''idw'' res window_size))"

text \<open>Lines 78 and 79: the handler \<open>except Exception as e\<close>.\<close>

definition except_Exception :: "string \<Rightarrow> exn \<Rightarrow> world \<Rightarrow> (exn + unit) \<times> world" where
  "except_Exception laz_fn e w =
     (if is_Exception e
      then (Inr (), print w (''An error occurred during processing for '' @ laz_fn @ '': ''
                               @ exn_str e))
      else (Inl e, w))"

text \<open>Lines 51 to 54: a surface model is announced, a terrain model is not.\<close>

definition dsm_notice :: "bool \<Rightarrow> world \<Rightarrow> world" where
  "dsm_notice dtm w =
     (if dtm then w
      else print w (''Generating DSM (Digital Surface Model) by including all ''
             @ ''surface features such as buildings and vegetation.''))"

text \<open>
  The whole procedure. The resolution and the window size are the integers the driver
  passes. The existence check of line 29 reads \<open>tif_fn\<close> as the caller gave it; the
  name is changed afterwards, on lines 41 and 47.
\<close>

definition laz_to_tif ::
  "env \<Rightarrow> string \<Rightarrow> string \<Rightarrow> int \<Rightarrow> int \<Rightarrow> int \<Rightarrow> int \<Rightarrow> bool \<Rightarrow> bool \<Rightarrow> world
     \<Rightarrow> (exn + unit) \<times> world" where
  "laz_to_tif env laz_fn tif_fn epsg_code res window_size nodata dtm reclassify w =
     (if path_exists w tif_fn
      then (Inr (), print w (''Output file '' @ quoted tif_fn
                               @ '' already exists. Skipping processing.''))
      else
        (let start_time = clock w;
             pipeline = build_pipeline laz_fn tif_fn epsg_code res window_size nodata
                          dtm reclassify;
             w1 = dsm_notice dtm w;
             (r, w2) = run_pipeline env pipeline w1
         in case r of
              Inl e \<Rightarrow> except_Exception laz_fn e w2
            | Inr arrays \<Rightarrow>
                (let elapsed_time = clock w2 - start_time;
                     point_count = (case arrays of [] \<Rightarrow> 0 | n # rest \<Rightarrow> n);
                     w3 = print w2 (''Processing completed for '' @ renamed reclassify tif_fn
                            @ '' in '' @ fmt_2f env elapsed_time @ '' seconds.'');
                     w4 = print w3 (''Processed point cloud contains '' @ str_nat point_count
                            @ '' points'');
                     w5 = print w4 (''Output saved to '' @ renamed reclassify tif_fn)
                 in (Inr (), w5))))"

subsection \<open>get\_params and process\_file\<close>

definition get_params :: "env \<Rightarrow> dataframe \<Rightarrow> nat \<Rightarrow> exn + (string \<times> csv_cell \<times> int)" where
  "get_params env df idx =
     (case lookup_col (columns df) ''transect'' of
        Inl e \<Rightarrow> Inl e
      | Inr transects \<Rightarrow>
     (case series_at transects idx of
        Inl e \<Rightarrow> Inl e
      | Inr transect \<Rightarrow>
     (case lookup_col (columns df) ''filepath'' of
        Inl e \<Rightarrow> Inl e
      | Inr filepaths \<Rightarrow>
     (case series_at filepaths idx of
        Inl e \<Rightarrow> Inl e
      | Inr laz_fn \<Rightarrow>
     (case lookup_col (columns df) ''epsg'' of
        Inl e \<Rightarrow> Inl e
      | Inr epsgs \<Rightarrow>
     (case series_at epsgs idx of
        Inl e \<Rightarrow> Inl e
      | Inr epsg \<Rightarrow>
     (case py_int epsg of
        Inl e \<Rightarrow> Inl e
      | Inr epsg_code \<Rightarrow> Inr (py_str env transect, laz_fn, epsg_code))))))))"

text \<open>
  Lines 93 to 98. Nothing here stands inside a \<open>try\<close>: an exception of \<open>get_params\<close>,
  of \<open>os.path.basename\<close> (a file path that is not a string) or of \<open>os.makedirs\<close>
  leaves \<open>process_file\<close>. \<open>las2tif_dpath\<close> is the constant of the configuration
  module, passed by the driver.
\<close>

definition process_file ::
  "env \<Rightarrow> nat \<Rightarrow> dataframe \<Rightarrow> int \<Rightarrow> int \<Rightarrow> int \<Rightarrow> string \<Rightarrow> string \<Rightarrow> bool \<Rightarrow> bool \<Rightarrow> world
     \<Rightarrow> (exn + unit) \<times> world" where
  "process_file env idx df res window_size nodata vname las2tif_dpath dtm reclassify w =
     (case get_params env df idx of
        Inl e \<Rightarrow> (Inl e, w)
      | Inr (dname, laz_cell, epsg_code) \<Rightarrow>
          (let outdpath = path_join las2tif_dpath dname
           in case laz_cell of
                VStr laz_fn \<Rightarrow>
                  (let bname = py_replace ''.laz'' [] (basename laz_fn);
                       (r, w1) = makedirs env outdpath w
                   in case r of
                        Some e \<Rightarrow> (Inl e, w1)
                      | None \<Rightarrow>
                          (let tif_fn = path_join outdpath
                                 (bname @ ''-'' @ vname @ str_int res @ ''m_''
                                    @ str_int window_size @ ''.tif'')
                           in laz_to_tif env laz_fn tif_fn epsg_code res window_size nodata
                                dtm reclassify w1))
              | other \<Rightarrow> (Inl (TypeError ''expected str, bytes or os.PathLike object''), w)))"

subsection \<open>The driver\<close>

text \<open>
  One job per row goes to the pool. The jobs share nothing but the file system, so a
  run of the pool is modelled by the order in which the jobs run to completion, the
  \<open>schedule\<close>: each job runs \<open>process_file\<close> on the world the earlier ones left, and
  its future holds what it returned or raised. Whatever a job raises, the others run.
\<close>

fun run_jobs ::
  "env \<Rightarrow> dataframe \<Rightarrow> int \<Rightarrow> int \<Rightarrow> int \<Rightarrow> string \<Rightarrow> string \<Rightarrow> nat list \<Rightarrow> world
     \<Rightarrow> (exn + unit) list \<times> world" where
  "run_jobs env df res window_size nodata vname las2tif_dpath [] w = ([], w)"
| "run_jobs env df res window_size nodata vname las2tif_dpath (idx # rest) w =
     (let (r, w1) = process_file env idx df res window_size nodata vname las2tif_dpath
                      True True w;
          (rs, w2) = run_jobs env df res window_size nodata vname las2tif_dpath rest w1
      in (r # rs, w2))"

text \<open>
  Lines 122 to 126: the loop over the completed futures. \<open>future.result()\<close> raises
  what the job raised; the handler is again \<open>except Exception\<close> and prints the text of
  the exception.
\<close>

fun collect_results :: "(exn + unit) list \<Rightarrow> world \<Rightarrow> (exn + unit) \<times> world" where
  "collect_results [] w = (Inr (), w)"
| "collect_results (Inr u # futures) w = collect_results futures w"
| "collect_results (Inl e # futures) w =
     (if is_Exception e
      then collect_results futures (print w (''Error during parallel processing: '' @ exn_str e))
      else (Inl e, w))"

definition is_schedule :: "dataframe \<Rightarrow> nat list \<Rightarrow> bool" where
  "is_schedule df schedule = (sort schedule = [0..<nrows df])"

text \<open>
  The main block with its constants. The pool is left only when every job has run
  (\<open>with\<close> waits for the pool), also when the loop over the futures is left by an
  exception; the run time is printed after the pool is left normally.
\<close>

definition main :: "env \<Rightarrow> string \<Rightarrow> dataframe \<Rightarrow> nat list \<Rightarrow> world \<Rightarrow> (exn + unit) \<times> world" where
  "main env las2tif_dpath df schedule w =
     (let ti = clock w;
          res = 30;
          window_size = 10;
          vname = ''DTM'';
          nodata = - 9999;
          (futures, w1) = run_jobs env df res window_size nodata vname las2tif_dpath schedule w;
          (r, w2) = collect_results futures w1
      in case r of
           Inl e \<Rightarrow> (Inl e, w2)
         | Inr u \<Rightarrow>
             (let tf = clock w2 - ti
              in (Inr (), print w2 (''RUN.TIME '' @ fmt_float env (tf / 60) @ '' min(s)''))))"

section \<open>Example surroundings\<close>

text \<open>
  Concrete collaborators for the examples below: an engine that writes the file of every
  writer stage and reports one array of a hundred points, an engine that raises a given
  exception, a \<open>makedirs\<close> that creates the directory and one that is refused.
\<close>

fun writer_files :: "stage list \<Rightarrow> string list" where
  "writer_files [] = []"
| "writer_files (Writer_gdal f opts nd ot r ws # pipeline) = f # writer_files pipeline"
| "writer_files (s # pipeline) = writer_files pipeline"

definition engine_ok :: "stage list \<Rightarrow> world \<Rightarrow> (exn + nat list) \<times> world" where
  "engine_ok pipeline w =
     (Inr [100], w\<lparr>files := files w @ writer_files pipeline, clock := clock w + 1\<rparr>)"

definition engine_raises :: "exn \<Rightarrow> stage list \<Rightarrow> world \<Rightarrow> (exn + nat list) \<times> world" where
  "engine_raises e pipeline w = (Inl e, w)"

definition makedirs_ok :: "string \<Rightarrow> world \<Rightarrow> exn option \<times> world" where
  "makedirs_ok path w = (None, w\<lparr>files := files w @ [path]\<rparr>)"

definition makedirs_denied :: "string \<Rightarrow> world \<Rightarrow> exn option \<times> world" where
  "makedirs_denied path w =
     (Some (Raised True ''PermissionError'' (''[Errno 13] Permission denied: '' @ quoted path)), w)"

definition example_env ::
  "(stage list \<Rightarrow> world \<Rightarrow> (exn + nat list) \<times> world) \<Rightarrow> (string \<Rightarrow> world \<Rightarrow> exn option \<times> world)
     \<Rightarrow> env" where
  "example_env engine mk =
     \<lparr>pdal_execute = engine, os_makedirs = mk, fmt_2f = (\<lambda>r. ''1.00''),
      fmt_float = (\<lambda>r. ''0.016666666666666666'')\<rparr>"

definition empty_world :: world where
  "empty_world = \<lparr>files = [], clock = 0, trace = []\<rparr>"

definition example_df :: dataframe where
  "example_df =
     \<lparr>columns = [(''transect'', [VStr ''t1'', VStr ''t2'']),
                 (''filepath'', [VStr ''/data/t1/a.laz'', VStr ''/data/t2/b.laz'']),
                 (''epsg'', [VInt 32633, VInt 32634])],
      nrows = 2\<rparr>"

text \<open>
  Two tables with one row whose \<open>epsg\<close> is not a number; the column then holds strings.
  In the first the bad row is row 0, in the second it is row 1.
\<close>

definition bad_epsg_first :: dataframe where
  "bad_epsg_first =
     \<lparr>columns = [(''transect'', [VStr ''t1'', VStr ''t2'']),
                 (''filepath'', [VStr ''/data/t1/a.laz'', VStr ''/data/t2/b.laz'']),
                 (''epsg'', [VStr ''abc'', VStr ''32634''])],
      nrows = 2\<rparr>"

definition bad_epsg_second :: dataframe where
  "bad_epsg_second =
     \<lparr>columns = [(''transect'', [VStr ''t1'', VStr ''t2'']),
                 (''filepath'', [VStr ''/data/t1/a.laz'', VStr ''/data/t2/b.laz'']),
                 (''epsg'', [VStr ''32633'', VStr ''abc''])],
      nrows = 2\<rparr>"

text \<open>A table whose only input file has \<open>.tif\<close> inside its name.\<close>

definition tif_named_df :: dataframe where
  "tif_named_df =
     \<lparr>columns = [(''transect'', [VStr ''t1'']),
                 (''filepath'', [VStr ''/data/t1/scan.tif.laz'']),
                 (''epsg'', [VInt 32633])],
      nrows = 1\<rparr>"

section \<open>Notions used to state the claims\<close>

text \<open>
  The output name as the specification gives it:
  \<open><input-basename>-<model-variant><resolution>m_<window-size>[_yrclf|_nrclf].tif\<close>
  under the output directory of the transect.
\<close>

definition spec_output_name :: "string \<Rightarrow> string \<Rightarrow> string \<Rightarrow> int \<Rightarrow> int \<Rightarrow> bool \<Rightarrow> string" where
  "spec_output_name outdpath bname vname res window_size reclassify =
     path_join outdpath
       (bname @ ''-'' @ vname @ str_int res @ ''m_'' @ str_int window_size
          @ (if reclassify then ''_yrclf'' else ''_nrclf'') @ ''.tif'')"

text \<open>The raster files the executed pipelines were told to write, in order.\<close>

definition rasters_written :: "world \<Rightarrow> string list" where
  "rasters_written w = concat (map writer_files (executed w))"

text \<open>The exceptions held by a list of futures, in order.\<close>

fun raised_by :: "(exn + unit) list \<Rightarrow> exn list" where
  "raised_by [] = []"
| "raised_by (Inl e # futures) = e # raised_by futures"
| "raised_by (Inr u # futures) = raised_by futures"

text \<open>The lines the dispatch loop printed for failed jobs.\<close>

definition dispatch_errors :: "world \<Rightarrow> string list" where
  "dispatch_errors w = filter (\<lambda>line. startswith line ''Error during parallel processing'') (printed w)"

text \<open>A record for which the matcher returns \<open>None\<close>.\<close>

fun unmatched :: "string list \<Rightarrow> cell \<Rightarrow> bool" where
  "unmatched basenames (CStr datafile) = (find_closest_match_datafile datafile basenames = None)"
| "unmatched basenames c = False"

text \<open>
  An example dataset of two records in EPSG:32633, the first of which has a file on disk,
  the files on disk, and a transformation that moves every point by one unit.
\<close>

definition example_gdf :: geoframe where
  "example_gdf =
     \<lparr>gcolumns = [(''id'', [CInt 1, CInt 2]),
                  (''transect'', [CStr ''t1'', CStr ''t3'']),
                  (''datafile'', [CStr ''A_dn_001_extra.ext'', CStr ''C_dn_999_extra.ext'']),
                  (''epsg'', [CInt 32633, CInt 32633]),
                  (''random'', [CInt 0, CInt 1]),
                  (''geometry'', [CGeom (Point 10 20), CGeom (Point 30 40)])],
      grows = 2,
      crs = Some 32633\<rparr>"

definition example_lazfiles :: "string list" where
  "example_lazfiles = [''/data/t2/B_dn_002.laz'', ''/data/t1/A_dn_001.laz'']"

fun shift_transform :: transform where
  "shift_transform src dst (Point x y) = Point (x + 1) (y + 1)"
| "shift_transform src dst (Polygon ps) = Polygon (map (\<lambda>(x, y). (x + 1, y + 1)) ps)"

text \<open>The same dataset without geometry column and without reference system.\<close>

definition bare_gdf :: geoframe where
  "bare_gdf =
     \<lparr>gcolumns = [(''id'', [CInt 1, CInt 2]),
                  (''transect'', [CStr ''t1'', CStr ''t3'']),
                  (''datafile'', [CStr ''A_dn_001_extra.ext'', CStr ''C_dn_999_extra.ext'']),
                  (''epsg'', [CInt 32633, CInt 32633]),
                  (''random'', [CInt 0, CInt 1])],
      grows = 2,
      crs = None\<rparr>"

text \<open>The three files the script writes for the example dataset.\<close>

definition example_artifacts :: artifacts where
  "example_artifacts =
     \<lparr>native_gpkg =
        (''/data/meta_locpaths.gpkg'',
         \<lparr>gcolumns = [(''id'', [CInt 1]), (''transect'', [CStr ''t1'']),
                      (''datafile'', [CStr ''A_dn_001_extra.ext'']),
                      (''epsg'', [CInt 32633]), (''random'', [CInt 0]),
                      (''geometry'', [CGeom (Point 10 20)]),
                      (''filepath'', [CStr ''/data/t1/A_dn_001.laz''])],
          grows = 1, crs = Some 32633\<rparr>),
      epsg4326_gpkg =
        (''/data/meta_locpaths_epsg4326.gpkg'',
         \<lparr>gcolumns = [(''id'', [CInt 1]), (''transect'', [CStr ''t1'']),
                      (''datafile'', [CStr ''A_dn_001_extra.ext'']),
                      (''epsg'', [CInt 32633]), (''random'', [CInt 0]),
                      (''geometry'', [CGeom (Point 11 21)]),
                      (''filepath'', [CStr ''/data/t1/A_dn_001.laz''])],
          grows = 1, crs = Some 4326\<rparr>),
      flat_csv =
        (''/data/meta_locpaths.csv'',
         [(''id'', [CInt 1]), (''transect'', [CStr ''t1'']),
          (''datafile'', [CStr ''A_dn_001_extra.ext'']),
          (''epsg'', [CInt 32633]), (''random'', [CInt 0]),
          (''filepath'', [CStr ''/data/t1/A_dn_001.laz''])])\<rparr>"

section \<open>Facts about the string primitives\<close>

lemma basename_no_slash: "CHR ''/'' \<notin> set (basename p)"
proof -
  have "\<forall>c \<in> set (takeWhile (\<lambda>c. c \<noteq> CHR ''/'') (rev p)). c \<noteq> CHR ''/''"
    using set_takeWhileD by fastforce
  then show ?thesis by (auto simp: basename_def)
qed

lemma basename_is_tail:
  "\<exists>d. p = d @ basename p \<and> (d = [] \<or> last d = CHR ''/'')"
proof -
  let ?P = "\<lambda>c. c \<noteq> CHR ''/''"
  have "rev (rev (dropWhile ?P (rev p)) @ basename p) = rev p"
    unfolding basename_def by simp
  then have p: "p = rev (dropWhile ?P (rev p)) @ basename p"
    by (simp only: rev_is_rev_conv)
  have "rev (dropWhile ?P (rev p)) = [] \<or> last (rev (dropWhile ?P (rev p))) = CHR ''/''"
  proof (cases "dropWhile ?P (rev p)")
    case Nil
    then show ?thesis by simp
  next
    case (Cons c cs)
    then have "\<not> ?P c" using hd_dropWhile [of ?P "rev p"] by simp
    with Cons show ?thesis by simp
  qed
  with p show ?thesis by blast
qed

lemma py_split_not_Nil: "py_split sep acc s \<noteq> []"
  by (induction sep acc s rule: py_split.induct) (subst py_split.simps, simp)

lemma py_split_absent:
  assumes "sep \<noteq> []" and "\<not> (\<exists>a b. s = a @ sep @ b)"
  shows "py_split sep acc s = [acc @ s]"
  using assms
proof (induction sep acc s rule: py_split.induct)
  case (1 sep acc s)
  show ?case
  proof (cases "s = []")
    case True
    then show ?thesis by (subst py_split.simps) simp
  next
    case False
    have np: "\<not> prefix sep s"
    proof
      assume "prefix sep s"
      then obtain b where "s = [] @ sep @ b" by (auto simp: prefix_def)
      with "1.prems"(2) show False by blast
    qed
    have "\<not> (\<exists>a b. tl s = a @ sep @ b)"
    proof
      assume "\<exists>a b. tl s = a @ sep @ b"
      then obtain a b where "tl s = a @ sep @ b" by blast
      with False have "s = (hd s # a) @ sep @ b" by (metis append_Cons list.collapse)
      with "1.prems"(2) show False by blast
    qed
    with "1.IH"(2) [OF "1.prems"(1) False np "1.prems"(1)]
    have "py_split sep (acc @ [hd s]) (tl s) = [(acc @ [hd s]) @ tl s]" .
    with False np "1.prems"(1) show ?thesis by (subst py_split.simps) simp
  qed
qed

lemma py_split_first_part:
  assumes "sep \<noteq> []" and "s = a @ sep @ b"
    and "\<forall>a' b'. s = a' @ sep @ b' \<longrightarrow> length a \<le> length a'"
  shows "hd (py_split sep acc s) = acc @ a"
  using assms
proof (induction a arbitrary: s acc)
  case Nil
  then have "prefix sep s" and "s \<noteq> []" by auto
  with Nil.prems(1) show ?case by (subst py_split.simps) simp
next
  case (Cons c a)
  have s: "s = c # (a @ sep @ b)" using Cons.prems(2) by simp
  have np: "\<not> prefix sep s"
  proof
    assume "prefix sep s"
    then obtain b' where "s = [] @ sep @ b'" by (auto simp: prefix_def)
    with Cons.prems(3) have "length (c # a) \<le> length ([]::string)" by blast
    then show False by simp
  qed
  have least: "\<forall>a' b'. a @ sep @ b = a' @ sep @ b' \<longrightarrow> length a \<le> length a'"
  proof (intro allI impI)
    fix a' b' assume "a @ sep @ b = a' @ sep @ b'"
    then have "s = (c # a') @ sep @ b'" using s by simp
    with Cons.prems(3) have "length (c # a) \<le> length (c # a')" by blast
    then show "length a \<le> length a'" by simp
  qed
  have "hd (py_split sep (acc @ [c]) (a @ sep @ b)) = (acc @ [c]) @ a"
    by (rule Cons.IH [OF Cons.prems(1) refl least])
  with s np Cons.prems(1) show ?case by (subst py_split.simps) simp
qed

lemma first_occurrence_exists:
  assumes "\<exists>a b. (s::string) = a @ sep @ b"
  shows "\<exists>a b. s = a @ sep @ b \<and> (\<forall>a' b'. s = a' @ sep @ b' \<longrightarrow> length a \<le> length a')"
proof -
  let ?Q = "\<lambda>n. \<exists>a b. s = a @ sep @ b \<and> length a = n"
  from assms have ex: "\<exists>n. ?Q n" by blast
  define n where "n = (LEAST n. ?Q n)"
  have "?Q n" unfolding n_def by (rule LeastI_ex [OF ex])
  then obtain a b where ab: "s = a @ sep @ b" "length a = n" by blast
  have "\<forall>a' b'. s = a' @ sep @ b' \<longrightarrow> length a \<le> length a'"
  proof (intro allI impI)
    fix a' b' assume "s = a' @ sep @ b'"
    then have "?Q (length a')" by blast
    then have "n \<le> length a'" unfolding n_def by (rule Least_le)
    with ab(2) show "length a \<le> length a'" by simp
  qed
  with ab(1) show ?thesis by blast
qed

lemma first_match_Some_iff:
  "first_match b xs = Some p \<longleftrightarrow>
     (\<exists>i < length xs. xs ! i = p \<and> startswith (basename p) b \<and>
        (\<forall>j < i. \<not> startswith (basename (xs ! j)) b))"
proof (induction xs)
  case Nil
  then show ?case by simp
next
  case (Cons x xs)
  show ?case
  proof (cases "startswith (basename x) b")
    case True
    have "(\<exists>i < length (x # xs). (x # xs) ! i = p \<and> startswith (basename p) b \<and>
            (\<forall>j < i. \<not> startswith (basename ((x # xs) ! j)) b)) \<longleftrightarrow> x = p"
    proof
      assume "\<exists>i < length (x # xs). (x # xs) ! i = p \<and> startswith (basename p) b \<and>
            (\<forall>j < i. \<not> startswith (basename ((x # xs) ! j)) b)"
      then obtain i where i: "(x # xs) ! i = p"
        "\<forall>j < i. \<not> startswith (basename ((x # xs) ! j)) b" by blast
      have "i = 0"
      proof (rule ccontr)
        assume "i \<noteq> 0"
        then have "0 < i" by simp
        with i(2) have "\<not> startswith (basename ((x # xs) ! 0)) b" by blast
        with True show False by simp
      qed
      with i(1) show "x = p" by simp
    next
      assume "x = p"
      with True have "(x # xs) ! 0 = p \<and> startswith (basename p) b \<and>
        (\<forall>j < (0::nat). \<not> startswith (basename ((x # xs) ! j)) b)" by simp
      then show "\<exists>i < length (x # xs). (x # xs) ! i = p \<and> startswith (basename p) b \<and>
            (\<forall>j < i. \<not> startswith (basename ((x # xs) ! j)) b)" by (intro exI [of _ 0]) simp
    qed
    with True show ?thesis by auto
  next
    case False
    have "(\<exists>i < length (x # xs). (x # xs) ! i = p \<and> startswith (basename p) b \<and>
            (\<forall>j < i. \<not> startswith (basename ((x # xs) ! j)) b)) \<longleftrightarrow>
          (\<exists>i < length xs. xs ! i = p \<and> startswith (basename p) b \<and>
            (\<forall>j < i. \<not> startswith (basename (xs ! j)) b))" (is "?L \<longleftrightarrow> ?R")
    proof
      assume ?L
      then obtain i where i: "i < length (x # xs)" "(x # xs) ! i = p" "startswith (basename p) b"
        "\<forall>j < i. \<not> startswith (basename ((x # xs) ! j)) b" by blast
      from i(2,3) False have "i \<noteq> 0" by (cases i) auto
      then obtain k where k: "i = Suc k" by (cases i) auto
      have "\<forall>j < k. \<not> startswith (basename (xs ! j)) b"
      proof (intro allI impI)
        fix j assume "j < k"
        then have "Suc j < i" using k by simp
        with i(4) have "\<not> startswith (basename ((x # xs) ! Suc j)) b" by blast
        then show "\<not> startswith (basename (xs ! j)) b" by simp
      qed
      with i k show ?R by (intro exI [of _ k]) simp
    next
      assume ?R
      then obtain k where k: "k < length xs" "xs ! k = p" "startswith (basename p) b"
        "\<forall>j < k. \<not> startswith (basename (xs ! j)) b" by blast
      have "\<forall>j < Suc k. \<not> startswith (basename ((x # xs) ! j)) b"
      proof (intro allI impI)
        fix j assume "j < Suc k"
        then show "\<not> startswith (basename ((x # xs) ! j)) b"
          using False k(4) by (cases j) auto
      qed
      with k show ?L by (intro exI [of _ "Suc k"]) simp
    qed
    with False Cons.IH show ?thesis by simp
  qed
qed

lemma first_match_None_iff:
  "first_match b xs = None \<longleftrightarrow> list_all (\<lambda>p. \<not> startswith (basename p) b) xs"
  by (induction xs) auto

section \<open>Claims about the matcher\<close>

text \<open>
  C2. The resolved path of a record is the full path of the first discovered file, in
  enumeration order, whose basename starts with the record's base name; the base name is
  the part of the datafile's basename before the first \<open>'_dn_'\<close> (the whole basename
  when the delimiter does not occur); when no discovered file's basename starts with the
  base, the result is \<open>None\<close>.
\<close>

theorem find_closest_match_datafile_first:
  "(find_closest_match_datafile datafile basenames = Some p \<longleftrightarrow>
      (\<exists>i < length basenames. basenames ! i = p \<and>
         startswith (basename p) (base_datafile datafile) \<and>
         (\<forall>j < i. \<not> startswith (basename (basenames ! j)) (base_datafile datafile))))
   \<and> (find_closest_match_datafile datafile basenames = None \<longleftrightarrow>
      (\<forall>q \<in> set basenames. \<not> startswith (basename q) (base_datafile datafile)))
   \<and> ((\<exists>rest. basename datafile = base_datafile datafile @ ''_dn_'' @ rest \<and>
          (\<forall>a b. basename datafile = a @ ''_dn_'' @ b \<longrightarrow>
             length (base_datafile datafile) \<le> length a))
        \<or> (\<not> (\<exists>a b. basename datafile = a @ ''_dn_'' @ b) \<and>
             base_datafile datafile = basename datafile))"
proof (intro conjI)
  show "find_closest_match_datafile datafile basenames = Some p \<longleftrightarrow>
      (\<exists>i < length basenames. basenames ! i = p \<and>
         startswith (basename p) (base_datafile datafile) \<and>
         (\<forall>j < i. \<not> startswith (basename (basenames ! j)) (base_datafile datafile)))"
    unfolding find_closest_match_datafile_def by (rule first_match_Some_iff)
  show "find_closest_match_datafile datafile basenames = None \<longleftrightarrow>
      (\<forall>q \<in> set basenames. \<not> startswith (basename q) (base_datafile datafile))"
    unfolding find_closest_match_datafile_def by (simp add: first_match_None_iff list_all_iff)
  show "(\<exists>rest. basename datafile = base_datafile datafile @ ''_dn_'' @ rest \<and>
          (\<forall>a b. basename datafile = a @ ''_dn_'' @ b \<longrightarrow>
             length (base_datafile datafile) \<le> length a))
        \<or> (\<not> (\<exists>a b. basename datafile = a @ ''_dn_'' @ b) \<and>
             base_datafile datafile = basename datafile)"
  proof (cases "\<exists>a b. basename datafile = a @ ''_dn_'' @ b")
    case True
    from first_occurrence_exists [OF True] obtain a b where
      ab: "basename datafile = a @ ''_dn_'' @ b"
      and least: "\<forall>a' b'. basename datafile = a' @ ''_dn_'' @ b' \<longrightarrow> length a \<le> length a'"
      by blast
    have "base_datafile datafile = a"
      unfolding base_datafile_def
      using py_split_first_part [of "''_dn_''" "basename datafile" a b "[]"] ab least by simp
    with ab least show ?thesis by blast
  next
    case False
    then have "py_split ''_dn_'' [] (basename datafile) = [[] @ basename datafile]"
      by (intro py_split_absent) simp_all
    with False show ?thesis by (simp add: base_datafile_def)
  qed
qed

text \<open>The scenario of two files and two records, one of which has no file.\<close>

lemmas matcher_simps = find_closest_match_datafile_def base_datafile_def basename_def
  startswith_def py_split.simps

theorem find_closest_match_datafile_first_witness:
  "find_closest_match_datafile ''A_dn_001_extra.ext''
      [''/data/t2/B_dn_002.laz'', ''/data/t1/A_dn_001.laz''] = Some ''/data/t1/A_dn_001.laz''
   \<and> find_closest_match_datafile ''C_dn_999_extra.ext''
      [''/data/t2/B_dn_002.laz'', ''/data/t1/A_dn_001.laz''] = None
   \<and> base_datafile ''A_dn_001_extra.ext'' = ''A''"
proof -
  let ?files = "[''/data/t2/B_dn_002.laz'', ''/data/t1/A_dn_001.laz'']"
  have base: "base_datafile ''A_dn_001_extra.ext'' = ''A''"
    by (simp add: matcher_simps)
  have "\<exists>i < length ?files. ?files ! i = ''/data/t1/A_dn_001.laz''
          \<and> startswith (basename ''/data/t1/A_dn_001.laz'') (base_datafile ''A_dn_001_extra.ext'')
          \<and> (\<forall>j < i. \<not> startswith (basename (?files ! j)) (base_datafile ''A_dn_001_extra.ext''))"
    by (rule exI [of _ 1]) (simp add: matcher_simps)
  then have found: "find_closest_match_datafile ''A_dn_001_extra.ext'' ?files
                      = Some ''/data/t1/A_dn_001.laz''"
    using find_closest_match_datafile_first
      [of "''A_dn_001_extra.ext''" ?files "''/data/t1/A_dn_001.laz''"] by blast
  have "\<forall>q \<in> set ?files. \<not> startswith (basename q) (base_datafile ''C_dn_999_extra.ext'')"
    by (simp add: matcher_simps)
  then have none: "find_closest_match_datafile ''C_dn_999_extra.ext'' ?files = None"
    using find_closest_match_datafile_first [of "''C_dn_999_extra.ext''" ?files "[]"]
    by blast
  from found none base show ?thesis by simp
qed

section \<open>Facts about the converter\<close>

lemma executed_print [simp]: "executed (print w l) = executed w"
  by (simp add: executed_def print_def)

lemma printed_print [simp]: "printed (print w l) = printed w @ [l]"
  by (simp add: printed_def print_def)

lemma executed_dsm_notice [simp]: "executed (dsm_notice dtm w) = executed w"
  by (simp add: dsm_notice_def)

lemma executed_run_pipeline:
  "executed (snd (run_pipeline env p w)) = executed w @ [p]"
  by (simp add: run_pipeline_def executed_def split: prod.splits)

lemma printed_run_pipeline:
  "printed (snd (run_pipeline env p w)) = printed w"
  by (simp add: run_pipeline_def printed_def split: prod.splits)

lemma laz_to_tif_skips_existing_argument:
  assumes "path_exists w tif_fn"
  shows "laz_to_tif env laz_fn tif_fn epsg_code res ws nd dtm reclassify w =
           (Inr (), print w (''Output file '' @ quoted tif_fn
                               @ '' already exists. Skipping processing.''))"
  using assms by (simp add: laz_to_tif_def)

lemma executed_except [simp]: "executed (snd (except_Exception laz_fn e w)) = executed w"
  by (simp add: except_Exception_def)

lemma laz_to_tif_executes:
  assumes "\<not> path_exists w tif_fn"
  shows "executed (snd (laz_to_tif env laz_fn tif_fn epsg_code res ws nd dtm reclassify w)) =
           executed w @ [build_pipeline laz_fn tif_fn epsg_code res ws nd dtm reclassify]"
proof -
  let ?p = "build_pipeline laz_fn tif_fn epsg_code res ws nd dtm reclassify"
  obtain r w2 where run: "run_pipeline env ?p (dsm_notice dtm w) = (r, w2)"
    by (cases "run_pipeline env ?p (dsm_notice dtm w)")
  have ex: "executed w2 = executed w @ [?p]"
    using executed_run_pipeline [of env ?p "dsm_notice dtm w"] run by simp
  show ?thesis
    using assms run ex by (cases r) (simp_all add: laz_to_tif_def Let_def)
qed

lemmas example_simps = laz_to_tif_def path_exists_def print_def run_pipeline_def
  build_pipeline_def pipe_def renamed_def dsm_notice_def except_Exception_def quoted_def
  example_env_def empty_world_def engine_ok_def engine_raises_def makedirs_ok_def
  makedirs_denied_def py_replace.simps str_int_def str_nat.simps digit_char_def
  executed_def printed_def Let_def

section \<open>Claims about laz\_to\_tif\<close>

text \<open>
  C1. When the output raster of a job is on disk, \<open>laz_to_tif\<close> should return at once
  and not read the input again. The check of line 29 looks for the name the caller passed;
  the raster is written under the name of lines 41 and 47, with \<open>_yrclf\<close> or
  \<open>_nrclf\<close> before the extension. So the first call below leaves exactly the raster
  \<open>out/t1/a-DTM30m_10_yrclf.tif\<close> on disk, and the second call, with the same
  arguments and that raster present, hands the same pipeline to the engine once more: it
  reads \<open>/data/t1/a.laz\<close> and writes the raster a second time.
\<close>

theorem laz_to_tif_second_run_reads_again:
  "files (snd (laz_to_tif (example_env engine_ok makedirs_ok) ''/data/t1/a.laz''
          ''out/t1/a-DTM30m_10.tif'' 32633 30 10 (- 9999) True True empty_world))
     = [''out/t1/a-DTM30m_10_yrclf.tif'']
   \<and> executed (snd (laz_to_tif (example_env engine_ok makedirs_ok) ''/data/t1/a.laz''
          ''out/t1/a-DTM30m_10.tif'' 32633 30 10 (- 9999) True True
          (snd (laz_to_tif (example_env engine_ok makedirs_ok) ''/data/t1/a.laz''
             ''out/t1/a-DTM30m_10.tif'' 32633 30 10 (- 9999) True True empty_world))))
     = [build_pipeline ''/data/t1/a.laz'' ''out/t1/a-DTM30m_10.tif'' 32633 30 10 (- 9999) True True,
        build_pipeline ''/data/t1/a.laz'' ''out/t1/a-DTM30m_10.tif'' 32633 30 10 (- 9999) True True]
   \<and> hd (build_pipeline ''/data/t1/a.laz'' ''out/t1/a-DTM30m_10.tif'' 32633 30 10 (- 9999) True True)
     = Reader ''/data/t1/a.laz''
   \<and> w_filename (last (build_pipeline ''/data/t1/a.laz'' ''out/t1/a-DTM30m_10.tif'' 32633 30 10
          (- 9999) True True))
     = ''out/t1/a-DTM30m_10_yrclf.tif''"
  by (simp add: example_simps)

text \<open>
  C3, as stated, fails: an exception whose class does not derive from \<open>Exception\<close>
  passes the handler and leaves \<open>laz_to_tif\<close>.
\<close>

theorem laz_to_tif_KeyboardInterrupt_propagates:
  "fst (laz_to_tif (example_env (engine_raises KeyboardInterrupt) makedirs_ok) ''/data/t1/a.laz''
          ''out/t1/a-DTM30m_10.tif'' 32633 30 10 (- 9999) True True empty_world)
     = Inl KeyboardInterrupt"
  by (simp add: example_simps KeyboardInterrupt_def)

text \<open>
  C3, amended. Whenever what the engine raises on the job's pipeline derives from
  \<open>Exception\<close>, \<open>laz_to_tif\<close> returns normally, and the last thing it did after
  such an exception was to print the message that names the input file and the text of
  the exception.
\<close>

theorem laz_to_tif_catches_Exception:
  assumes "\<forall>e. fst (pdal_execute env
                     (build_pipeline laz_fn tif_fn epsg_code res ws nd dtm reclassify)
                     (dsm_notice dtm w)) = Inl e \<longrightarrow> is_Exception e"
  shows "fst (laz_to_tif env laz_fn tif_fn epsg_code res ws nd dtm reclassify w) = Inr ()
    \<and> (\<forall>e. \<not> path_exists w tif_fn
           \<and> fst (pdal_execute env
                    (build_pipeline laz_fn tif_fn epsg_code res ws nd dtm reclassify)
                    (dsm_notice dtm w)) = Inl e
         \<longrightarrow> last (trace (snd (laz_to_tif env laz_fn tif_fn epsg_code res ws nd dtm reclassify w)))
               = Print (''An error occurred during processing for '' @ laz_fn @ '': ''
                          @ exn_str e))"
proof -
  let ?p = "build_pipeline laz_fn tif_fn epsg_code res ws nd dtm reclassify"
  obtain r w' where ex: "pdal_execute env ?p (dsm_notice dtm w) = (r, w')"
    by (cases "pdal_execute env ?p (dsm_notice dtm w)")
  show ?thesis
  proof (cases r)
    case (Inl e)
    with ex assms have "is_Exception e" by simp
    with ex Inl show ?thesis
      by (simp add: laz_to_tif_def run_pipeline_def except_Exception_def print_def Let_def)
  next
    case (Inr arrays)
    with ex show ?thesis
      by (simp add: laz_to_tif_def run_pipeline_def Let_def)
  qed
qed

theorem laz_to_tif_catches_Exception_witness:
  "fst (laz_to_tif (example_env (engine_raises (Raised True ''RuntimeError'' ''readers.las: no file''))
          makedirs_ok) ''/data/t1/a.laz'' ''out/t1/a-DTM30m_10.tif'' 32633 30 10 (- 9999) True True
          empty_world) = Inr ()
   \<and> last (trace (snd (laz_to_tif
          (example_env (engine_raises (Raised True ''RuntimeError'' ''readers.las: no file''))
          makedirs_ok) ''/data/t1/a.laz'' ''out/t1/a-DTM30m_10.tif'' 32633 30 10 (- 9999) True True
          empty_world)))
     = Print ''An error occurred during processing for /data/t1/a.laz: readers.las: no file''"
proof -
  let ?env = "example_env (engine_raises (Raised True ''RuntimeError'' ''readers.las: no file''))
          makedirs_ok"
  let ?p = "build_pipeline ''/data/t1/a.laz'' ''out/t1/a-DTM30m_10.tif'' 32633 30 10 (- 9999) True True"
  have raised: "fst (pdal_execute ?env ?p (dsm_notice True empty_world))
                  = Inl (Raised True ''RuntimeError'' ''readers.las: no file'')"
    by (simp add: example_env_def engine_raises_def)
  then have hyp: "\<forall>e. fst (pdal_execute ?env ?p (dsm_notice True empty_world)) = Inl e
                    \<longrightarrow> is_Exception e"
    by simp
  have absent: "\<not> path_exists empty_world ''out/t1/a-DTM30m_10.tif''"
    by (simp add: path_exists_def empty_world_def)
  from laz_to_tif_catches_Exception [OF hyp] raised absent show ?thesis by simp
qed

lemma build_pipeline_chain:
  "build_pipeline laz_fn tif_fn epsg_code res ws nd dtm reclassify =
     Reader laz_fn
     # (if reclassify
        then [Filter_expression ''Classification != 7'', Filter_assign ''Classification[:]=0'',
              Filter_reprojection (''EPSG:'' @ str_int epsg_code), Filter_smrf]
        else [Filter_reprojection (''EPSG:'' @ str_int epsg_code)])
     @ (if dtm then [Filter_expression ''Classification == 2''] else [])
     @ [Writer_gdal (renamed reclassify tif_fn) ''tiled=yes,compress=deflate'' nd ''idw'' res ws]"
  by (simp add: build_pipeline_def pipe_def Let_def)

text \<open>
  C5. With reclassification the chain is: read, drop the points of class 7 (noise), set
  every class to 0, reproject to the target system, SMRF; without it: read, reproject.
  A terrain model adds the filter that keeps class 2 (ground), a surface model adds no
  classification filter. The writer comes last, and this chain is what \<open>laz_to_tif\<close>
  hands to the engine when it does not skip.
\<close>

theorem filter_chain_order:
  "build_pipeline laz_fn tif_fn epsg_code res ws nd dtm True =
     [Reader laz_fn,
      Filter_expression ''Classification != 7'',
      Filter_assign ''Classification[:]=0'',
      Filter_reprojection (''EPSG:'' @ str_int epsg_code),
      Filter_smrf]
     @ (if dtm then [Filter_expression ''Classification == 2''] else [])
     @ [Writer_gdal (renamed True tif_fn) ''tiled=yes,compress=deflate'' nd ''idw'' res ws]
   \<and> build_pipeline laz_fn tif_fn epsg_code res ws nd dtm False =
     [Reader laz_fn,
      Filter_reprojection (''EPSG:'' @ str_int epsg_code)]
     @ (if dtm then [Filter_expression ''Classification == 2''] else [])
     @ [Writer_gdal (renamed False tif_fn) ''tiled=yes,compress=deflate'' nd ''idw'' res ws]
   \<and> (\<not> path_exists w tif_fn \<longrightarrow>
        executed (snd (laz_to_tif env laz_fn tif_fn epsg_code res ws nd dtm reclassify w))
          = executed w @ [build_pipeline laz_fn tif_fn epsg_code res ws nd dtm reclassify])"
  using laz_to_tif_executes [of w tif_fn env laz_fn epsg_code res ws nd dtm reclassify]
  by (simp add: build_pipeline_chain)

theorem filter_chain_order_witness:
  "executed (snd (laz_to_tif (example_env engine_ok makedirs_ok) ''/data/t1/a.laz''
      ''out/t1/a-DTM30m_10.tif'' 32633 30 10 (- 9999) False True empty_world))
     = [[Reader ''/data/t1/a.laz'',
         Filter_expression ''Classification != 7'',
         Filter_assign ''Classification[:]=0'',
         Filter_reprojection ''EPSG:32633'',
         Filter_smrf,
         Writer_gdal ''out/t1/a-DTM30m_10_yrclf.tif'' ''tiled=yes,compress=deflate'' (- 9999)
           ''idw'' 30 10]]
   \<and> executed (snd (laz_to_tif (example_env engine_ok makedirs_ok) ''/data/t1/a.laz''
      ''out/t1/a-DTM30m_10.tif'' 32633 30 10 (- 9999) True False empty_world))
     = [[Reader ''/data/t1/a.laz'',
         Filter_reprojection ''EPSG:32633'',
         Filter_expression ''Classification == 2'',
         Writer_gdal ''out/t1/a-DTM30m_10_nrclf.tif'' ''tiled=yes,compress=deflate'' (- 9999)
           ''idw'' 30 10]]"
proof -
  have absent: "\<not> path_exists empty_world ''out/t1/a-DTM30m_10.tif''"
    by (simp add: path_exists_def empty_world_def)
  have none: "executed empty_world = []"
    by (simp add: executed_def empty_world_def)
  have names: "renamed True ''out/t1/a-DTM30m_10.tif'' = ''out/t1/a-DTM30m_10_yrclf.tif''"
    "renamed False ''out/t1/a-DTM30m_10.tif'' = ''out/t1/a-DTM30m_10_nrclf.tif''"
    by (simp_all add: renamed_def py_replace.simps)
  have code: "str_int 32633 = ''32633''"
    by (simp add: str_int_def str_nat.simps digit_char_def)
  from filter_chain_order [of "''/data/t1/a.laz''" "''out/t1/a-DTM30m_10.tif''" 32633 30 10
      "- 9999" False empty_world "example_env engine_ok makedirs_ok" True]
    filter_chain_order [of "''/data/t1/a.laz''" "''out/t1/a-DTM30m_10.tif''" 32633 30 10
      "- 9999" True empty_world "example_env engine_ok makedirs_ok" False]
    absent
  show ?thesis by (simp add: none names code)
qed

section \<open>Claims about process\_file and the driver\<close>

lemmas job_simps = process_file_def get_params_def series_at_def makedirs_def path_join_def
  basename_def py_int_str_def strip_def is_space_def is_digit_def digits_value_def
  ValueError_def TypeError_def KeyError_def rasters_written_def
  example_df_def bad_epsg_first_def bad_epsg_second_def tif_named_df_def spec_output_name_def

lemma length_run_jobs:
  "length (fst (run_jobs env df res ws nd vname d schedule w)) = length schedule"
  by (induction schedule arbitrary: w) (simp_all add: Let_def case_prod_beta)

lemma run_jobs_append:
  "run_jobs env df res ws nd vname d (s1 @ s2) w =
     (fst (run_jobs env df res ws nd vname d s1 w)
        @ fst (run_jobs env df res ws nd vname d s2 (snd (run_jobs env df res ws nd vname d s1 w))),
      snd (run_jobs env df res ws nd vname d s2 (snd (run_jobs env df res ws nd vname d s1 w))))"
  by (induction s1 arbitrary: w) (simp_all add: Let_def case_prod_beta)

lemma collect_results_caught:
  "list_all is_Exception (raised_by futures) \<Longrightarrow>
     collect_results futures w =
       (Inr (), w\<lparr>trace := trace w @ map (\<lambda>e. Print (''Error during parallel processing: ''
                                                   @ exn_str e)) (raised_by futures)\<rparr>)"
  by (induction futures w rule: collect_results.induct) (simp_all add: print_def)

lemma collect_results_uncaught:
  "\<not> list_all is_Exception (raised_by futures) \<Longrightarrow> \<exists>e. fst (collect_results futures w) = Inl e \<and> \<not> is_Exception e"
  by (induction futures w rule: collect_results.induct) (simp_all add: print_def)

lemma printed_trace_append:
  "printed (w\<lparr>trace := trace w @ map (\<lambda>e. Print (f e)) es\<rparr>) = printed w @ map f es"
  by (induction es) (simp_all add: printed_def)

lemma executed_trace_append:
  "executed (w\<lparr>trace := trace w @ map (\<lambda>e. Print (f e)) es\<rparr>) = executed w"
  by (induction es) (simp_all add: executed_def)

lemma schedule_covers_rows:
  assumes "is_schedule df schedule"
  shows "length schedule = nrows df" and "set schedule = {0..<nrows df}"
proof -
  from assms have s: "sort schedule = [0..<nrows df]" by (simp add: is_schedule_def)
  have "length (sort schedule) = length schedule" by simp
  with s show "length schedule = nrows df" by simp
  have "set (sort schedule) = set schedule" by simp
  with s show "set schedule = {0..<nrows df}" by simp
qed

lemma main_caught:
  "length (fst (run_jobs env df 30 10 (- 9999) ''DTM'' d schedule w)) = length schedule
   \<and> (list_all is_Exception (raised_by (fst (run_jobs env df 30 10 (- 9999) ''DTM'' d schedule w)))
        \<longrightarrow> fst (main env d df schedule w) = Inr ()
          \<and> printed (snd (main env d df schedule w))
              = printed (snd (run_jobs env df 30 10 (- 9999) ''DTM'' d schedule w))
                @ map (\<lambda>e. ''Error during parallel processing: '' @ exn_str e)
                    (raised_by (fst (run_jobs env df 30 10 (- 9999) ''DTM'' d schedule w)))
                @ [''RUN.TIME ''
                    @ fmt_float env
                        ((clock (snd (run_jobs env df 30 10 (- 9999) ''DTM'' d schedule w))
                           - clock w) / 60)
                    @ '' min(s)'']
          \<and> executed (snd (main env d df schedule w))
              = executed (snd (run_jobs env df 30 10 (- 9999) ''DTM'' d schedule w)))"
proof (intro conjI impI)
  let ?run = "run_jobs env df 30 10 (- 9999) ''DTM'' d schedule w"
  show "length (fst ?run) = length schedule" by (rule length_run_jobs)
  assume ok: "list_all is_Exception (raised_by (fst ?run))"
  obtain futures w1 where run: "?run = (futures, w1)" by (cases ?run)
  from collect_results_caught [of futures w1] ok run
  have col: "collect_results futures w1 =
               (Inr (), w1\<lparr>trace := trace w1 @ map (\<lambda>e. Print (''Error during parallel processing: ''
                                                   @ exn_str e)) (raised_by futures)\<rparr>)"
    by simp
  have m: "main env d df schedule w =
             (Inr (), print (w1\<lparr>trace := trace w1 @ map (\<lambda>e. Print (''Error during parallel processing: ''
                                                   @ exn_str e)) (raised_by futures)\<rparr>)
                        (''RUN.TIME '' @ fmt_float env ((clock w1 - clock w) / 60) @ '' min(s)''))"
    using run col by (simp add: main_def)
  show "fst (main env d df schedule w) = Inr ()" using m by simp
  show "printed (snd (main env d df schedule w))
          = printed (snd ?run)
            @ map (\<lambda>e. ''Error during parallel processing: '' @ exn_str e) (raised_by (fst ?run))
            @ [''RUN.TIME '' @ fmt_float env ((clock (snd ?run) - clock w) / 60) @ '' min(s)'']"
    using run by (simp only: m snd_conv fst_conv printed_print printed_trace_append) simp
  show "executed (snd (main env d df schedule w)) = executed (snd ?run)"
    using run by (simp only: m snd_conv executed_print executed_trace_append)
qed

lemma bad_epsg_first_job0:
  "process_file env 0 bad_epsg_first res ws nd vname d dtm rc w =
     (Inl (ValueError (''invalid literal for int() with base 10: '' @ quoted ''abc'')), w)"
  by (simp add: job_simps quoted_def)

lemma bad_epsg_second_job1:
  "process_file env 1 bad_epsg_second res ws nd vname d dtm rc w =
     (Inl (ValueError (''invalid literal for int() with base 10: '' @ quoted ''abc'')), w)"
  by (simp add: job_simps quoted_def)

lemma bad_epsg_first_job1:
  "process_file (example_env engine_ok makedirs_ok) 1 bad_epsg_first 30 10 (- 9999) ''DTM'' ''out''
      True True empty_world =
     (Inr (),
      \<lparr>files = [''out/t2'', ''out/t2/b-DTM30m_10_yrclf.tif''], clock = 1,
       trace = [Makedirs ''out/t2'',
                Execute (build_pipeline ''/data/t2/b.laz'' ''out/t2/b-DTM30m_10.tif'' 32634 30 10
                           (- 9999) True True),
                Print ''Processing completed for out/t2/b-DTM30m_10_yrclf.tif in 1.00 seconds.'',
                Print ''Processed point cloud contains 100 points'',
                Print ''Output saved to out/t2/b-DTM30m_10_yrclf.tif'']\<rparr>)"
  by (simp add: example_simps job_simps)

lemma bad_epsg_second_job0:
  "process_file (example_env engine_ok makedirs_ok) 0 bad_epsg_second 30 10 (- 9999) ''DTM'' ''out''
      True True empty_world =
     (Inr (),
      \<lparr>files = [''out/t1'', ''out/t1/a-DTM30m_10_yrclf.tif''], clock = 1,
       trace = [Makedirs ''out/t1'',
                Execute (build_pipeline ''/data/t1/a.laz'' ''out/t1/a-DTM30m_10.tif'' 32633 30 10
                           (- 9999) True True),
                Print ''Processing completed for out/t1/a-DTM30m_10_yrclf.tif in 1.00 seconds.'',
                Print ''Processed point cloud contains 100 points'',
                Print ''Output saved to out/t1/a-DTM30m_10_yrclf.tif'']\<rparr>)"
  by (simp add: example_simps job_simps)

lemma run_bad_epsg_first:
  "run_jobs (example_env engine_ok makedirs_ok) bad_epsg_first 30 10 (- 9999) ''DTM'' ''out''
      [0, 1] empty_world =
     ([Inl (ValueError (''invalid literal for int() with base 10: '' @ quoted ''abc'')), Inr ()],
      \<lparr>files = [''out/t2'', ''out/t2/b-DTM30m_10_yrclf.tif''], clock = 1,
       trace = [Makedirs ''out/t2'',
                Execute (build_pipeline ''/data/t2/b.laz'' ''out/t2/b-DTM30m_10.tif'' 32634 30 10
                           (- 9999) True True),
                Print ''Processing completed for out/t2/b-DTM30m_10_yrclf.tif in 1.00 seconds.'',
                Print ''Processed point cloud contains 100 points'',
                Print ''Output saved to out/t2/b-DTM30m_10_yrclf.tif'']\<rparr>)"
  by (simp only: run_jobs.simps bad_epsg_first_job0 bad_epsg_first_job1 Let_def prod.case)

lemma run_bad_epsg_second:
  "run_jobs (example_env engine_ok makedirs_ok) bad_epsg_second 30 10 (- 9999) ''DTM'' ''out''
      [0, 1] empty_world =
     ([Inr (), Inl (ValueError (''invalid literal for int() with base 10: '' @ quoted ''abc''))],
      \<lparr>files = [''out/t1'', ''out/t1/a-DTM30m_10_yrclf.tif''], clock = 1,
       trace = [Makedirs ''out/t1'',
                Execute (build_pipeline ''/data/t1/a.laz'' ''out/t1/a-DTM30m_10.tif'' 32633 30 10
                           (- 9999) True True),
                Print ''Processing completed for out/t1/a-DTM30m_10_yrclf.tif in 1.00 seconds.'',
                Print ''Processed point cloud contains 100 points'',
                Print ''Output saved to out/t1/a-DTM30m_10_yrclf.tif'']\<rparr>)"
  by (simp only: run_jobs.simps bad_epsg_second_job0 bad_epsg_second_job1 Let_def prod.case)

lemma printed_bad_epsg_first:
  "printed (snd (main (example_env engine_ok makedirs_ok) ''out'' bad_epsg_first [0, 1] empty_world))
     = [''Processing completed for out/t2/b-DTM30m_10_yrclf.tif in 1.00 seconds.'',
        ''Processed point cloud contains 100 points'',
        ''Output saved to out/t2/b-DTM30m_10_yrclf.tif'',
        ''Error during parallel processing: invalid literal for int() with base 10: '' @ quoted ''abc'',
        ''RUN.TIME 0.016666666666666666 min(s)'']"
proof -
  have ok: "list_all is_Exception (raised_by (fst (run_jobs (example_env engine_ok makedirs_ok)
              bad_epsg_first 30 10 (- 9999) ''DTM'' ''out'' [0, 1] empty_world)))"
    by (simp only: run_bad_epsg_first fst_conv) (simp add: ValueError_def)
  have fmt: "fmt_float (example_env engine_ok makedirs_ok) r = ''0.016666666666666666''" for r
    by (simp add: example_env_def)
  from main_caught [of "example_env engine_ok makedirs_ok" bad_epsg_first "''out''" "[0, 1]" empty_world]
    ok
  show ?thesis
    by (simp only: run_bad_epsg_first fst_conv snd_conv fmt)
       (simp add: printed_def ValueError_def)
qed

lemma printed_bad_epsg_second:
  "printed (snd (main (example_env engine_ok makedirs_ok) ''out'' bad_epsg_second [0, 1] empty_world))
     = [''Processing completed for out/t1/a-DTM30m_10_yrclf.tif in 1.00 seconds.'',
        ''Processed point cloud contains 100 points'',
        ''Output saved to out/t1/a-DTM30m_10_yrclf.tif'',
        ''Error during parallel processing: invalid literal for int() with base 10: '' @ quoted ''abc'',
        ''RUN.TIME 0.016666666666666666 min(s)'']"
proof -
  have ok: "list_all is_Exception (raised_by (fst (run_jobs (example_env engine_ok makedirs_ok)
              bad_epsg_second 30 10 (- 9999) ''DTM'' ''out'' [0, 1] empty_world)))"
    by (simp only: run_bad_epsg_second fst_conv) (simp add: ValueError_def)
  have fmt: "fmt_float (example_env engine_ok makedirs_ok) r = ''0.016666666666666666''" for r
    by (simp add: example_env_def)
  from main_caught [of "example_env engine_ok makedirs_ok" bad_epsg_second "''out''" "[0, 1]" empty_world]
    ok
  show ?thesis
    by (simp only: run_bad_epsg_second fst_conv snd_conv fmt)
       (simp add: printed_def ValueError_def)
qed

text \<open>
  Where \<open>.tif\<close> occurs in the path as its extension only, \<open>replace\<close> does change
  the extension, and a job that is not skipped writes the raster the pattern names.
\<close>

lemma contains_iff: "contains s sub \<longleftrightarrow> (\<exists>a b. s = a @ sub @ b)"
proof (induction s)
  case Nil
  then show ?case by auto
next
  case (Cons c cs)
  show ?case
  proof
    assume "contains (c # cs) sub"
    then consider "prefix sub (c # cs)" | "contains cs sub" by auto
    then show "\<exists>a b. c # cs = a @ sub @ b"
    proof cases
      case 1
      then obtain b where "c # cs = [] @ sub @ b" by (auto simp: prefix_def)
      then show ?thesis by blast
    next
      case 2
      with Cons.IH obtain a b where "cs = a @ sub @ b" by blast
      then have "c # cs = (c # a) @ sub @ b" by simp
      then show ?thesis by blast
    qed
  next
    assume "\<exists>a b. c # cs = a @ sub @ b"
    then obtain a b where ab: "c # cs = a @ sub @ b" by blast
    show "contains (c # cs) sub"
    proof (cases a)
      case Nil
      with ab have "prefix sub (c # cs)" by (simp add: prefix_def)
      then show ?thesis by simp
    next
      case (Cons x a')
      with ab have "cs = a' @ sub @ b" by simp
      with Cons.IH show ?thesis by auto
    qed
  qed
qed

lemma py_replace_at_end:
  assumes "old \<noteq> []" and "\<forall>a b. stem @ old = a @ old @ b \<longrightarrow> b = []"
  shows "py_replace old new (stem @ old) = stem @ new"
  using assms(2)
proof (induction stem)
  case Nil
  have "py_replace old new [] = []" using assms(1) by (subst py_replace.simps) simp
  with assms(1) show ?case by (subst py_replace.simps) simp
next
  case (Cons c cs)
  have np: "\<not> prefix old ((c # cs) @ old)"
  proof
    assume "prefix old ((c # cs) @ old)"
    then obtain b where b: "(c # cs) @ old = [] @ old @ b" by (auto simp: prefix_def)
    with Cons.prems have "b = []" by blast
    with b show False by simp
  qed
  have "\<forall>a b. cs @ old = a @ old @ b \<longrightarrow> b = []"
  proof (intro allI impI)
    fix a b assume "cs @ old = a @ old @ b"
    then have "(c # cs) @ old = (c # a) @ old @ b" by simp
    with Cons.prems show "b = []" by blast
  qed
  with Cons.IH have "py_replace old new (cs @ old) = cs @ new" by simp
  with np assms(1) show ?case by (subst py_replace.simps) simp
qed

lemma short_overlap:
  assumes "length us < 4" and "us @ ''.tif'' = ''.tif'' @ b"
  shows "us = []"
proof (cases us)
  case Nil
  then show ?thesis .
next
  case (Cons x1 t1)
  show ?thesis
  proof (cases t1)
    case Nil
    with Cons assms(2) show ?thesis by simp
  next
    case (Cons x2 t2)
    note c2 = this
    show ?thesis
    proof (cases t2)
      case Nil
      with c2 \<open>us = x1 # t1\<close> assms(2) show ?thesis by simp
    next
      case (Cons x3 t3)
      with c2 \<open>us = x1 # t1\<close> assms(1) have "t3 = []" by simp
      with Cons c2 \<open>us = x1 # t1\<close> assms(2) show ?thesis by simp
    qed
  qed
qed

lemma tif_only_at_end:
  assumes "\<not> contains stem ''.tif''" and "stem @ ''.tif'' = a @ ''.tif'' @ b"
  shows "b = []"
proof -
  from assms(2) consider us where "stem = a @ us" "us @ ''.tif'' = ''.tif'' @ b"
    | us where "stem @ us = a" "''.tif'' = us @ ''.tif'' @ b"
    by (auto simp: append_eq_append_conv2)
  then show ?thesis
  proof cases
    case 1
    have "length us < 4"
    proof (rule ccontr)
      assume "\<not> length us < 4"
      then have "length ''.tif'' \<le> length us" by simp
      with 1(2) have "prefix ''.tif'' us"
        by (metis append_eq_append_conv_if prefix_def append_take_drop_id)
      then obtain r where "us = ''.tif'' @ r" by (auto simp: prefix_def)
      with 1(1) have "stem = a @ ''.tif'' @ r" by simp
      with assms(1) show False by (simp only: contains_iff) blast
    qed
    from short_overlap [OF this 1(2)] 1(2) show ?thesis by simp
  next
    case 2
    from arg_cong [OF 2(2), of length] have "(4::nat) = length us + (4 + length b)" by simp
    then show ?thesis by simp
  qed
qed

lemma renamed_suffix:
  assumes "\<not> contains stem ''.tif''"
  shows "renamed rc (stem @ ''.tif'') = stem @ (if rc then ''_yrclf.tif'' else ''_nrclf.tif'')"
proof -
  have only: "\<forall>a b. stem @ ''.tif'' = a @ ''.tif'' @ b \<longrightarrow> b = []"
    using tif_only_at_end [OF assms] by blast
  have "py_replace ''.tif'' new (stem @ ''.tif'') = stem @ new" for new
    by (rule py_replace_at_end [OF _ only]) simp
  then show ?thesis by (simp add: renamed_def)
qed

lemma writer_files_build_pipeline:
  "writer_files (build_pipeline laz_fn tif_fn epsg_code res ws nd dtm rc) = [renamed rc tif_fn]"
  by (cases dtm; cases rc) (simp_all add: build_pipeline_def pipe_def)

lemma rasters_written_laz_to_tif:
  assumes "\<not> path_exists w tif_fn"
  shows "rasters_written (snd (laz_to_tif env laz_fn tif_fn epsg_code res ws nd dtm rc w))
           = rasters_written w @ [renamed rc tif_fn]"
  using laz_to_tif_executes [OF assms, of env laz_fn epsg_code res ws nd dtm rc]
  by (simp add: rasters_written_def writer_files_build_pipeline)

lemma path_join_append: "x \<noteq> [] \<Longrightarrow> path_join a (x @ y) = path_join a x @ y"
  by (simp add: path_join_def)

lemma job_output_matches_pattern:
  assumes params: "get_params env df idx = Inr (dname, VStr laz_fn, epsg_code)"
    and created: "fst (os_makedirs env (path_join d dname) w) = None"
    and stem: "stem = path_join (path_join d dname)
                        (py_replace ''.laz'' [] (basename laz_fn) @ ''-'' @ vname @ str_int res
                           @ ''m_'' @ str_int ws)"
    and absent: "\<not> path_exists (snd (os_makedirs env (path_join d dname) w)) (stem @ ''.tif'')"
    and clean: "\<not> contains stem ''.tif''"
  shows "rasters_written (snd (process_file env idx df res ws nd vname d dtm rc w))
           = rasters_written w
             @ [spec_output_name (path_join d dname) (py_replace ''.laz'' [] (basename laz_fn))
                  vname res ws rc]"
proof -
  let ?out = "path_join d dname"
  let ?bname = "py_replace ''.laz'' [] (basename laz_fn)"
  let ?name = "?bname @ ''-'' @ vname @ str_int res @ ''m_'' @ str_int ws"
  obtain r w0 where mk0: "os_makedirs env ?out w = (r, w0)" by (cases "os_makedirs env ?out w")
  with created have r: "r = None" by simp
  let ?w1 = "w0\<lparr>trace := trace w @ [Makedirs ?out]\<rparr>"
  have mk: "makedirs env ?out w = (None, ?w1)"
    using mk0 r by (simp add: makedirs_def)
  have tif: "path_join ?out (?name @ ''.tif'') = stem @ ''.tif''"
    using path_join_append [of ?name ?out "''.tif''"] stem by simp
  have spec: "spec_output_name ?out ?bname vname res ws rc
                = stem @ (if rc then ''_yrclf.tif'' else ''_nrclf.tif'')"
    using path_join_append [of ?name ?out "(if rc then ''_yrclf'' else ''_nrclf'') @ ''.tif''"] stem
    by (simp add: spec_output_name_def)
  have absent1: "\<not> path_exists ?w1 (stem @ ''.tif'')"
    using absent mk0 by (simp add: path_exists_def)
  have before: "rasters_written ?w1 = rasters_written w"
    by (simp add: rasters_written_def executed_def)
  have "process_file env idx df res ws nd vname d dtm rc w
          = laz_to_tif env laz_fn (stem @ ''.tif'') epsg_code res ws nd dtm rc ?w1"
    using params mk tif by (simp add: process_file_def Let_def)
  then show ?thesis
    using rasters_written_laz_to_tif [OF absent1, of env laz_fn epsg_code res ws nd dtm rc]
      renamed_suffix [OF clean, of rc] before spec
    by simp
qed

text \<open>
  C7. The name of the raster should be
  \<open><input-basename>-<model-variant><resolution>m_<window-size>_yrclf.tif\<close> under the
  directory of the transect. \<open>replace\<close> changes every \<open>.tif\<close> of the path, not
  the extension only: for the input \<open>scan.tif.laz\<close> the job writes
  \<open>out/t1/scan_yrclf.tif-DTM30m_10_yrclf.tif\<close>, and with the output root
  \<open>/data/las.tif\<close> it creates \<open>/data/las.tif/t1\<close> and tells the writer to write
  into \<open>/data/las_yrclf.tif/t1\<close>.
\<close>

theorem output_name_replaces_every_tif:
  "rasters_written (snd (process_file (example_env engine_ok makedirs_ok) 0 tif_named_df
       30 10 (- 9999) ''DTM'' ''out'' True True empty_world))
     = [''out/t1/scan_yrclf.tif-DTM30m_10_yrclf.tif'']
   \<and> spec_output_name (path_join ''out'' ''t1'') ''scan.tif'' ''DTM'' 30 10 True
     = ''out/t1/scan.tif-DTM30m_10_yrclf.tif''
   \<and> hd (trace (snd (process_file (example_env engine_ok makedirs_ok) 0 example_df
       30 10 (- 9999) ''DTM'' ''/data/las.tif'' True True empty_world)))
     = Makedirs ''/data/las.tif/t1''
   \<and> rasters_written (snd (process_file (example_env engine_ok makedirs_ok) 0 example_df
       30 10 (- 9999) ''DTM'' ''/data/las.tif'' True True empty_world))
     = [''/data/las_yrclf.tif/t1/a-DTM30m_10_yrclf.tif'']
   \<and> spec_output_name (path_join ''/data/las.tif'' ''t1'') ''a'' ''DTM'' 30 10 True
     = ''/data/las.tif/t1/a-DTM30m_10_yrclf.tif''"
  by (simp add: example_simps job_simps)

text \<open>
  C10. The parameters of a job are read and its output directory is created outside any
  handler: what \<open>get_params\<close> raises, and what \<open>os.makedirs\<close> raises, leaves
  \<open>process_file\<close> with nothing printed and nothing executed. A row whose \<open>epsg\<close>
  is not a number is such a row.
\<close>

theorem process_file_raises_outside_handler:
  "(get_params env df idx = Inl e \<longrightarrow>
      process_file env idx df res ws nd vname d dtm rc w = (Inl e, w))
   \<and> (get_params env df idx = Inr (dname, VStr laz_fn, epsg_code)
        \<and> fst (os_makedirs env (path_join d dname) w) = Some e \<longrightarrow>
      fst (process_file env idx df res ws nd vname d dtm rc w) = Inl e
      \<and> printed (snd (process_file env idx df res ws nd vname d dtm rc w)) = printed w
      \<and> executed (snd (process_file env idx df res ws nd vname d dtm rc w)) = executed w)
   \<and> get_params env bad_epsg_second 1
       = Inl (ValueError (''invalid literal for int() with base 10: '' @ quoted ''abc''))
   \<and> is_Exception (ValueError (''invalid literal for int() with base 10: '' @ quoted ''abc''))"
proof (intro conjI impI)
  assume "get_params env df idx = Inl e"
  then show "process_file env idx df res ws nd vname d dtm rc w = (Inl e, w)"
    by (simp add: process_file_def)
next
  assume a: "get_params env df idx = Inr (dname, VStr laz_fn, epsg_code)
        \<and> fst (os_makedirs env (path_join d dname) w) = Some e"
  obtain r w' where mk: "os_makedirs env (path_join d dname) w = (r, w')"
    by (cases "os_makedirs env (path_join d dname) w")
  with a have r: "r = Some e" by simp
  have pf: "process_file env idx df res ws nd vname d dtm rc w
              = (Inl e, w'\<lparr>trace := trace w @ [Makedirs (path_join d dname)]\<rparr>)"
    using a mk r by (simp add: process_file_def makedirs_def Let_def)
  show "fst (process_file env idx df res ws nd vname d dtm rc w) = Inl e"
    using pf by simp
  show "printed (snd (process_file env idx df res ws nd vname d dtm rc w)) = printed w"
    using pf by (simp add: printed_def)
  show "executed (snd (process_file env idx df res ws nd vname d dtm rc w)) = executed w"
    using pf by (simp add: executed_def)
next
  show "get_params env bad_epsg_second 1
       = Inl (ValueError (''invalid literal for int() with base 10: '' @ quoted ''abc''))"
    by (simp add: job_simps quoted_def)
  show "is_Exception (ValueError (''invalid literal for int() with base 10: '' @ quoted ''abc''))"
    by (simp add: ValueError_def)
qed

theorem process_file_raises_outside_handler_witness:
  "process_file (example_env engine_ok makedirs_ok) 1 bad_epsg_second 30 10 (- 9999) ''DTM'' ''out''
      True True empty_world
     = (Inl (ValueError (''invalid literal for int() with base 10: '' @ quoted ''abc'')), empty_world)
   \<and> fst (process_file (example_env engine_ok makedirs_denied) 0 example_df 30 10 (- 9999) ''DTM''
      ''out'' True True empty_world)
     = Inl (Raised True ''PermissionError'' (''[Errno 13] Permission denied: '' @ quoted ''out/t1''))
   \<and> printed (snd (process_file (example_env engine_ok makedirs_denied) 0 example_df 30 10
      (- 9999) ''DTM'' ''out'' True True empty_world)) = []"
proof -
  have gp: "get_params (example_env engine_ok makedirs_denied) example_df 0
              = Inr (''t1'', VStr ''/data/t1/a.laz'', 32633)"
    by (simp add: job_simps)
  have mk: "fst (os_makedirs (example_env engine_ok makedirs_denied) (path_join ''out'' ''t1'')
              empty_world)
              = Some (Raised True ''PermissionError''
                       (''[Errno 13] Permission denied: '' @ quoted ''out/t1''))"
    by (simp add: example_env_def makedirs_denied_def path_join_def)
  have silent: "printed empty_world = []"
    by (simp add: printed_def empty_world_def)
  let ?V = "ValueError (''invalid literal for int() with base 10: '' @ quoted ''abc'')"
  let ?P = "Raised True ''PermissionError'' (''[Errno 13] Permission denied: '' @ quoted ''out/t1'')"
  note bad = process_file_raises_outside_handler
      [where env = "example_env engine_ok makedirs_ok" and df = bad_epsg_second and idx = 1
         and e = ?V and res = 30 and ws = 10 and nd = "- 9999" and vname = "''DTM''"
         and d = "''out''" and dtm = True and rc = True and w = empty_world]
  from bad have "get_params (example_env engine_ok makedirs_ok) bad_epsg_second 1 = Inl ?V"
    by blast
  with bad have first: "process_file (example_env engine_ok makedirs_ok) 1 bad_epsg_second 30 10
      (- 9999) ''DTM'' ''out'' True True empty_world = (Inl ?V, empty_world)"
    by blast
  note denied = process_file_raises_outside_handler
      [where env = "example_env engine_ok makedirs_denied" and df = example_df and idx = 0
         and e = ?P and res = 30 and ws = 10 and nd = "- 9999" and vname = "''DTM''"
         and d = "''out''" and dtm = True and rc = True and w = empty_world
         and dname = "''t1''" and laz_fn = "''/data/t1/a.laz''" and epsg_code = 32633]
  from denied gp mk have second:
    "fst (process_file (example_env engine_ok makedirs_denied) 0 example_df 30 10 (- 9999) ''DTM''
      ''out'' True True empty_world) = Inl ?P
     \<and> printed (snd (process_file (example_env engine_ok makedirs_denied) 0 example_df 30 10
      (- 9999) ''DTM'' ''out'' True True empty_world)) = printed empty_world"
    by blast
  have third:
    "printed (snd (process_file (example_env engine_ok makedirs_denied) 0 example_df 30 10
      (- 9999) ''DTM'' ''out'' True True empty_world)) = []"
    by (simp only: conjunct2 [OF second] silent)
  show ?thesis
    by (intro conjI) (rule first, rule conjunct1 [OF second], rule third)
qed

text \<open>
  C6, as stated, fails: the line the dispatch loop prints carries the text of the
  exception and no job index. Whether job 0 fails or job 1 fails, the same line is printed.
\<close>

theorem dispatch_log_has_no_job_index:
  "fst (process_file (example_env engine_ok makedirs_ok) 0 bad_epsg_first 30 10 (- 9999) ''DTM''
          ''out'' True True empty_world)
     = Inl (ValueError (''invalid literal for int() with base 10: '' @ quoted ''abc''))
   \<and> fst (process_file (example_env engine_ok makedirs_ok) 1 bad_epsg_first 30 10 (- 9999) ''DTM''
          ''out'' True True empty_world) = Inr ()
   \<and> fst (process_file (example_env engine_ok makedirs_ok) 0 bad_epsg_second 30 10 (- 9999) ''DTM''
          ''out'' True True empty_world) = Inr ()
   \<and> fst (process_file (example_env engine_ok makedirs_ok) 1 bad_epsg_second 30 10 (- 9999) ''DTM''
          ''out'' True True empty_world)
     = Inl (ValueError (''invalid literal for int() with base 10: '' @ quoted ''abc''))
   \<and> dispatch_errors (snd (main (example_env engine_ok makedirs_ok) ''out'' bad_epsg_first [0, 1]
          empty_world))
     = [''Error during parallel processing: invalid literal for int() with base 10: ''
          @ quoted ''abc'']
   \<and> dispatch_errors (snd (main (example_env engine_ok makedirs_ok) ''out'' bad_epsg_second [0, 1]
          empty_world))
     = [''Error during parallel processing: invalid literal for int() with base 10: ''
          @ quoted ''abc'']"
  by (simp only: bad_epsg_first_job0 bad_epsg_first_job1 bad_epsg_second_job0 bad_epsg_second_job1
        dispatch_errors_def printed_bad_epsg_first printed_bad_epsg_second fst_conv)
     (simp add: startswith_def quoted_def)

text \<open>
  C6, amended. Every scheduled job runs to completion whatever the others raised; when
  what the jobs raised derives from \<open>Exception\<close>, the driver returns normally, having
  printed one line with the text of each exception, and the run time last, after all jobs.
\<close>

theorem dispatch_catches_and_reports:
  "length (fst (run_jobs env df 30 10 (- 9999) ''DTM'' d schedule w)) = length schedule
   \<and> (is_schedule df schedule \<longrightarrow>
        length (fst (run_jobs env df 30 10 (- 9999) ''DTM'' d schedule w)) = nrows df
        \<and> set schedule = {0..<nrows df})
   \<and> (list_all is_Exception (raised_by (fst (run_jobs env df 30 10 (- 9999) ''DTM'' d schedule w)))
        \<longrightarrow> fst (main env d df schedule w) = Inr ()
          \<and> printed (snd (main env d df schedule w))
              = printed (snd (run_jobs env df 30 10 (- 9999) ''DTM'' d schedule w))
                @ map (\<lambda>e. ''Error during parallel processing: '' @ exn_str e)
                    (raised_by (fst (run_jobs env df 30 10 (- 9999) ''DTM'' d schedule w)))
                @ [''RUN.TIME ''
                    @ fmt_float env
                        ((clock (snd (run_jobs env df 30 10 (- 9999) ''DTM'' d schedule w))
                           - clock w) / 60)
                    @ '' min(s)'']
          \<and> executed (snd (main env d df schedule w))
              = executed (snd (run_jobs env df 30 10 (- 9999) ''DTM'' d schedule w)))"
proof -
  note m = main_caught [of env df d schedule w]
  have sched: "is_schedule df schedule \<longrightarrow>
        length (fst (run_jobs env df 30 10 (- 9999) ''DTM'' d schedule w)) = nrows df
        \<and> set schedule = {0..<nrows df}"
    using schedule_covers_rows [of df schedule]
      length_run_jobs [of env df 30 10 "- 9999" "''DTM''" d schedule w]
    by simp
  show ?thesis
    by (intro conjI) (rule conjunct1 [OF m], rule sched, rule conjunct2 [OF m])
qed

theorem dispatch_catches_and_reports_witness:
  "is_schedule bad_epsg_second [0, 1]
   \<and> length (fst (run_jobs (example_env engine_ok makedirs_ok) bad_epsg_second 30 10 (- 9999)
        ''DTM'' ''out'' [0, 1] empty_world)) = nrows bad_epsg_second
   \<and> fst (main (example_env engine_ok makedirs_ok) ''out'' bad_epsg_second [0, 1] empty_world) = Inr ()
   \<and> printed (snd (main (example_env engine_ok makedirs_ok) ''out'' bad_epsg_second [0, 1]
        empty_world))
     = [''Processing completed for out/t1/a-DTM30m_10_yrclf.tif in 1.00 seconds.'',
        ''Processed point cloud contains 100 points'',
        ''Output saved to out/t1/a-DTM30m_10_yrclf.tif'',
        ''Error during parallel processing: invalid literal for int() with base 10: '' @ quoted ''abc'',
        ''RUN.TIME 0.016666666666666666 min(s)'']"
proof -
  have sch: "is_schedule bad_epsg_second [0, 1]"
    by (simp add: is_schedule_def bad_epsg_second_def upt_rec)
  have ok: "list_all is_Exception (raised_by (fst (run_jobs (example_env engine_ok makedirs_ok)
              bad_epsg_second 30 10 (- 9999) ''DTM'' ''out'' [0, 1] empty_world)))"
    by (simp only: run_bad_epsg_second fst_conv) (simp add: ValueError_def)
  have fmt: "fmt_float (example_env engine_ok makedirs_ok) r = ''0.016666666666666666''" for r
    by (simp add: example_env_def)
  note T = dispatch_catches_and_reports
    [of "example_env engine_ok makedirs_ok" bad_epsg_second "''out''" "[0, 1]" empty_world]
  note rows = mp [OF conjunct1 [OF conjunct2 [OF T]] sch]
  note caught = mp [OF conjunct2 [OF conjunct2 [OF T]] ok]
  have lines: "printed (snd (main (example_env engine_ok makedirs_ok) ''out'' bad_epsg_second [0, 1]
        empty_world))
     = [''Processing completed for out/t1/a-DTM30m_10_yrclf.tif in 1.00 seconds.'',
        ''Processed point cloud contains 100 points'',
        ''Output saved to out/t1/a-DTM30m_10_yrclf.tif'',
        ''Error during parallel processing: invalid literal for int() with base 10: '' @ quoted ''abc'',
        ''RUN.TIME 0.016666666666666666 min(s)'']"
    using conjunct1 [OF conjunct2 [OF caught]]
    by (simp only: run_bad_epsg_second fst_conv snd_conv fmt)
       (simp add: printed_def ValueError_def)
  show ?thesis
    by (intro conjI) (rule sch, rule conjunct1 [OF rows], rule conjunct1 [OF caught], rule lines)
qed

section \<open>Claims about the metadata linker\<close>

lemma lookup_assign_same: "lookup_col (assign_col cols n vs) n = Inr vs"
  by (induction cols n vs rule: assign_col.induct) simp_all

lemma lookup_assign_other: "m \<noteq> n \<Longrightarrow> lookup_col (assign_col cols n vs) m = lookup_col cols m"
  by (induction cols n vs rule: assign_col.induct) simp_all

lemma lookup_mask:
  "lookup_col (mask_cols ms cols) n =
     (case lookup_col cols n of Inl e \<Rightarrow> Inl e | Inr vs \<Rightarrow> Inr (mask_rows ms vs))"
  by (induction cols n rule: lookup_col.induct) (simp_all add: mask_cols_def)

lemma select_cols_lookup:
  "select_cols cols names = Inr sel \<Longrightarrow> n \<in> set names \<Longrightarrow> lookup_col sel n = lookup_col cols n"
  by (induction names arbitrary: sel) (auto split: sum.splits)

lemma select_cols_names: "select_cols cols names = Inr sel \<Longrightarrow> map fst sel = names"
  by (induction names arbitrary: sel) (auto split: sum.splits)

lemma mask_rows_map: "mask_rows (map P xs) xs = filter P xs"
  by (induction xs) simp_all

lemma has_col_lookup: "has_col cols n \<longleftrightarrow> (\<exists>vs. lookup_col cols n = Inr vs)"
  by (induction cols n rule: lookup_col.induct) auto

lemma lookup_filter_other:
  "n \<noteq> g \<Longrightarrow> lookup_col (filter (\<lambda>(m, vs). m \<noteq> g) cols) n = lookup_col cols n"
  by (induction cols n rule: lookup_col.induct) auto

lemma wf_lookup_length:
  "wf_geoframe g \<Longrightarrow> lookup_col (gcolumns g) n = Inr vs \<Longrightarrow> length vs = grows g"
proof -
  have "list_all (\<lambda>(m, vs). length vs = k) cols \<Longrightarrow> lookup_col cols n = Inr vs
          \<Longrightarrow> length vs = k" for cols k
    by (induction cols n rule: lookup_col.induct) (auto split: if_splits)
  then show "wf_geoframe g \<Longrightarrow> lookup_col (gcolumns g) n = Inr vs \<Longrightarrow> length vs = grows g"
    unfolding wf_geoframe_def by blast
qed

lemma apply_matcher_result:
  "apply_matcher b ds = Inr ps \<Longrightarrow>
     length ps = length ds
     \<and> length (filter isnull ps) = length (filter (unmatched b) ds)"
proof (induction b ds arbitrary: ps rule: apply_matcher.induct)
  case (1 basenames)
  then show ?case by simp
next
  case (2 basenames datafile rest)
  then obtain qs where qs: "apply_matcher basenames rest = Inr qs"
    and ps: "ps = match_cell basenames datafile # qs"
    by (auto split: sum.splits)
  have "isnull (match_cell basenames datafile)
          \<longleftrightarrow> find_closest_match_datafile datafile basenames = None"
    by (simp add: match_cell_def split: option.splits)
  with "2.IH" [OF qs] ps show ?case by simp
qed simp_all

lemma count_kept:
  "length (filter (\<lambda>c. \<not> isnull c) ps) = length ps - length (filter isnull ps)"
  using sum_length_filter_compl [of isnull ps] by simp

lemma link_and_filter_result:
  assumes "link_and_filter b meta = Inr m"
    and "lookup_col (gcolumns meta) ''datafile'' = Inr ds"
  shows "\<exists>fp. lookup_col (gcolumns m) ''filepath'' = Inr fp
           \<and> list_all (\<lambda>c. \<not> isnull c) fp
           \<and> length fp = length ds - length (filter (unmatched b) ds)
           \<and> grows m = length fp"
    and "map fst (gcolumns m) = metacols"
    and "crs m = crs meta"
proof -
  from assms obtain ps cols where
    ps: "apply_matcher b ds = Inr ps"
    and cols: "select_cols (mask_cols (map (\<lambda>c. \<not> isnull c) ps)
                 (assign_col (gcolumns meta) ''filepath'' ps)) metacols = Inr cols"
    and m: "m = meta\<lparr>gcolumns := cols, grows := length (filter id (map (\<lambda>c. \<not> isnull c) ps))\<rparr>"
    by (auto simp: link_and_filter_def Let_def split: sum.splits)
  let ?fp = "filter (\<lambda>c. \<not> isnull c) ps"
  have "lookup_col cols ''filepath'' =
          lookup_col (mask_cols (map (\<lambda>c. \<not> isnull c) ps)
                 (assign_col (gcolumns meta) ''filepath'' ps)) ''filepath''"
    by (rule select_cols_lookup [OF cols]) (simp add: metacols_def)
  then have fp: "lookup_col (gcolumns m) ''filepath'' = Inr ?fp"
    by (simp add: m lookup_mask lookup_assign_same mask_rows_map)
  have all: "list_all (\<lambda>c. \<not> isnull c) ?fp" by (simp add: list_all_iff)
  have len: "length ?fp = length ds - length (filter (unmatched b) ds)"
    using apply_matcher_result [OF ps] count_kept [of ps] by simp
  have rows: "grows m = length ?fp"
    by (simp add: m filter_map comp_def)
  from fp all len rows
  show "\<exists>fp. lookup_col (gcolumns m) ''filepath'' = Inr fp
           \<and> list_all (\<lambda>c. \<not> isnull c) fp
           \<and> length fp = length ds - length (filter (unmatched b) ds)
           \<and> grows m = length fp" by blast
  show "map fst (gcolumns m) = metacols"
    using select_cols_names [OF cols] by (simp add: m)
  show "crs m = crs meta" by (simp add: m)
qed

lemma to_crs_result:
  assumes "to_crs tr epsg meta = Inr m'"
  shows "n \<noteq> ''geometry'' \<Longrightarrow> lookup_col (gcolumns m') n = lookup_col (gcolumns meta) n"
    and "map fst (gcolumns m') = map fst (gcolumns meta)"
    and "grows m' = grows meta"
    and "crs m' = Some epsg"
    and "filter (\<lambda>(m, vs). m \<noteq> ''geometry'') (gcolumns m')
           = filter (\<lambda>(m, vs). m \<noteq> ''geometry'') (gcolumns meta)"
    and "has_col (gcolumns m') ''geometry'' = has_col (gcolumns meta) ''geometry''"
proof -
  from assms obtain src where src: "crs meta = Some src"
    and m': "m' = meta\<lparr>gcolumns := map (\<lambda>(n, vs). if n = ''geometry''
                                            then (n, map (reproject_cell tr src epsg) vs)
                                            else (n, vs)) (gcolumns meta),
                    crs := Some epsg\<rparr>"
    by (auto simp: to_crs_def split: option.splits)
  have other: "n \<noteq> g \<Longrightarrow>
      lookup_col (map (\<lambda>(n, vs). if n = g then (n, f vs) else (n, vs)) cols) n = lookup_col cols n"
    for cols :: "cell columns" and g f
    by (induction cols n rule: lookup_col.induct) auto
  show "n \<noteq> ''geometry'' \<Longrightarrow> lookup_col (gcolumns m') n = lookup_col (gcolumns meta) n"
    by (simp add: m' other)
  show "map fst (gcolumns m') = map fst (gcolumns meta)"
    by (simp add: m' comp_def case_prod_beta)
  show "grows m' = grows meta" by (simp add: m')
  show "crs m' = Some epsg" by (simp add: m')
  have "filter (\<lambda>(m, vs). m \<noteq> g) (map (\<lambda>(n, vs). if n = g then (n, f vs) else (n, vs)) cols)
          = filter (\<lambda>(m, vs). m \<noteq> g) cols" for cols :: "cell columns" and g f
    by (induction cols) auto
  then show "filter (\<lambda>(m, vs). m \<noteq> ''geometry'') (gcolumns m')
           = filter (\<lambda>(m, vs). m \<noteq> ''geometry'') (gcolumns meta)"
    by (simp add: m')
  have "has_col (map (\<lambda>(n, vs). if n = g then (n, f vs) else (n, vs)) cols) g = has_col cols g"
    for cols :: "cell columns" and g f
    by (induction cols) (auto split: if_splits)
  then show "has_col (gcolumns m') ''geometry'' = has_col (gcolumns meta) ''geometry''"
    by (simp add: m')
qed

lemma wa_metadata_parts:
  assumes "wa_metadata tr lazfiles gdf gpkg_fn = Inr A"
  obtains meta meta_4326 df where
    "link_and_filter lazfiles (repair_crs (repair_geometry gdf)) = Inr meta"
    "to_crs tr 4326 meta = Inr meta_4326"
    "drop_col (gcolumns meta) ''geometry'' = Inr df"
    "snd (native_gpkg A) = meta" "snd (epsg4326_gpkg A) = meta_4326" "snd (flat_csv A) = df"
  using assms by (auto simp: wa_metadata_def Let_def split: sum.splits)

lemma repair_keeps_datafile:
  "lookup_col (gcolumns (repair_crs (repair_geometry gdf))) ''datafile''
     = lookup_col (gcolumns gdf) ''datafile''"
  by (simp add: repair_crs_def repair_geometry_def lookup_assign_other split: option.splits)

lemma link_and_filter_datafile:
  "link_and_filter b meta = Inr m \<Longrightarrow> \<exists>ds. lookup_col (gcolumns meta) ''datafile'' = Inr ds"
  by (auto simp: link_and_filter_def split: sum.splits)

lemma drop_col_lookup:
  "drop_col cols g = Inr df \<Longrightarrow> n \<noteq> g \<Longrightarrow> lookup_col df n = lookup_col cols n"
  by (auto simp: drop_col_def lookup_filter_other split: if_splits)

lemmas linker_simps = wa_metadata_def link_and_filter_def repair_crs_def repair_geometry_def
  geometry_missing_def to_crs_def drop_col_def metacols_def mask_cols_def match_cell_def
  example_gdf_def bare_gdf_def example_lazfiles_def wf_geoframe_def
  find_closest_match_datafile_def base_datafile_def basename_def startswith_def py_split.simps
  py_replace.simps KeyError_def TypeError_def ValueError_def quoted_def Let_def

lemma example_run:
  "wa_metadata shift_transform example_lazfiles example_gdf ''/data/meta.gpkg''
     = Inr example_artifacts"
  by (simp add: linker_simps example_artifacts_def)

lemma example_wf: "wf_geoframe example_gdf"
  by (simp add: wf_geoframe_def example_gdf_def)

text \<open>
  C8. A dataset without a geometry column, or whose geometries are null in every row,
  gets the placeholder \<open>Point(0, 0)\<close> in every row, and a dataset without reference
  system gets EPSG:4326; both repairs are total, no other column and no row count
  changes, and a dataset with a geometry that is not null everywhere and with a reference
  system passes both repairs unchanged.
\<close>

theorem geometry_and_crs_repairs:
  "(geometry_missing meta \<longleftrightarrow>
      \<not> has_col (gcolumns meta) ''geometry''
      \<or> (\<exists>gs. lookup_col (gcolumns meta) ''geometry'' = Inr gs \<and> list_all isnull gs))
   \<and> (geometry_missing meta \<longrightarrow>
        lookup_col (gcolumns (repair_geometry meta)) ''geometry''
          = Inr (replicate (grows meta) (CGeom (Point 0 0))))
   \<and> (\<forall>n. n \<noteq> ''geometry'' \<longrightarrow>
          lookup_col (gcolumns (repair_geometry meta)) n = lookup_col (gcolumns meta) n)
   \<and> grows (repair_geometry meta) = grows meta
   \<and> (crs meta = None \<longrightarrow>
        crs (repair_crs meta) = Some 4326 \<and> gcolumns (repair_crs meta) = gcolumns meta
        \<and> grows (repair_crs meta) = grows meta)
   \<and> (\<not> geometry_missing meta \<and> crs meta \<noteq> None \<longrightarrow> repair_crs (repair_geometry meta) = meta)"
proof (intro conjI allI impI)
  show "geometry_missing meta \<longleftrightarrow>
      \<not> has_col (gcolumns meta) ''geometry''
      \<or> (\<exists>gs. lookup_col (gcolumns meta) ''geometry'' = Inr gs \<and> list_all isnull gs)"
    by (auto simp: geometry_missing_def has_col_lookup split: sum.splits)
  show "grows (repair_geometry meta) = grows meta"
    by (simp add: repair_geometry_def)
next
  assume "geometry_missing meta"
  then show "lookup_col (gcolumns (repair_geometry meta)) ''geometry''
          = Inr (replicate (grows meta) (CGeom (Point 0 0)))"
    by (simp add: repair_geometry_def lookup_assign_same)
next
  fix n :: string assume "n \<noteq> ''geometry''"
  then show "lookup_col (gcolumns (repair_geometry meta)) n = lookup_col (gcolumns meta) n"
    by (simp add: repair_geometry_def lookup_assign_other)
next
  assume c: "crs meta = None"
  then show "crs (repair_crs meta) = Some 4326" by (simp add: repair_crs_def)
  from c show "gcolumns (repair_crs meta) = gcolumns meta" by (simp add: repair_crs_def)
  from c show "grows (repair_crs meta) = grows meta" by (simp add: repair_crs_def)
next
  assume "\<not> geometry_missing meta \<and> crs meta \<noteq> None"
  then show "repair_crs (repair_geometry meta) = meta"
    by (auto simp: repair_crs_def repair_geometry_def)
qed

theorem geometry_and_crs_repairs_witness:
  "geometry_missing bare_gdf
   \<and> crs bare_gdf = None
   \<and> lookup_col (gcolumns (repair_crs (repair_geometry bare_gdf))) ''geometry''
       = Inr [CGeom (Point 0 0), CGeom (Point 0 0)]
   \<and> lookup_col (gcolumns (repair_crs (repair_geometry bare_gdf))) ''id'' = Inr [CInt 1, CInt 2]
   \<and> crs (repair_crs (repair_geometry bare_gdf)) = Some 4326
   \<and> repair_crs (repair_geometry example_gdf) = example_gdf"
proof -
  have missing: "geometry_missing bare_gdf"
    by (simp add: geometry_missing_def bare_gdf_def KeyError_def)
  have nocrs: "crs (repair_geometry bare_gdf) = None"
    by (simp add: repair_geometry_def bare_gdf_def)
  have valid: "\<not> geometry_missing example_gdf \<and> crs example_gdf \<noteq> None"
    by (simp add: geometry_missing_def example_gdf_def)
  have rows: "replicate (grows bare_gdf) (CGeom (Point 0 0)) = [CGeom (Point 0 0), CGeom (Point 0 0)]"
    by (simp add: bare_gdf_def numeral_2_eq_2)
  have idcol: "lookup_col (gcolumns bare_gdf) ''id'' = Inr [CInt 1, CInt 2]"
    by (simp add: bare_gdf_def)
  note g = geometry_and_crs_repairs [of bare_gdf]
  note c = geometry_and_crs_repairs [of "repair_geometry bare_gdf"]
  note v = geometry_and_crs_repairs [of example_gdf]
  from g missing rows have geo: "lookup_col (gcolumns (repair_geometry bare_gdf)) ''geometry''
       = Inr [CGeom (Point 0 0), CGeom (Point 0 0)]" by simp
  from g idcol have ids: "lookup_col (gcolumns (repair_geometry bare_gdf)) ''id''
       = Inr [CInt 1, CInt 2]" by simp
  from c nocrs have crs': "crs (repair_crs (repair_geometry bare_gdf)) = Some 4326"
    and cols: "gcolumns (repair_crs (repair_geometry bare_gdf)) = gcolumns (repair_geometry bare_gdf)"
    by blast+
  from v valid have same: "repair_crs (repair_geometry example_gdf) = example_gdf" by blast
  have "crs bare_gdf = None" by (simp add: bare_gdf_def)
  with missing geo ids crs' cols same show ?thesis by simp
qed

text \<open>
  C4. When the script gets to write its files, the \<open>filepath\<close> column of each of the
  three has no null entry, and the number of rows is the number of input records less the
  number of records for which the matcher returned \<open>None\<close>.
\<close>

theorem persisted_rows_have_filepath:
  assumes "wa_metadata tr lazfiles gdf gpkg_fn = Inr A" and "wf_geoframe gdf"
  shows "\<exists>ds fp. lookup_col (gcolumns gdf) ''datafile'' = Inr ds
      \<and> lookup_col (gcolumns (snd (native_gpkg A))) ''filepath'' = Inr fp
      \<and> lookup_col (gcolumns (snd (epsg4326_gpkg A))) ''filepath'' = Inr fp
      \<and> lookup_col (snd (flat_csv A)) ''filepath'' = Inr fp
      \<and> list_all (\<lambda>c. \<not> isnull c) fp
      \<and> length fp = grows gdf - length (filter (unmatched lazfiles) ds)
      \<and> grows (snd (native_gpkg A)) = length fp
      \<and> grows (snd (epsg4326_gpkg A)) = length fp"
proof -
  from assms(1) obtain meta meta_4326 df where
    link: "link_and_filter lazfiles (repair_crs (repair_geometry gdf)) = Inr meta"
    and reproj: "to_crs tr 4326 meta = Inr meta_4326"
    and drop: "drop_col (gcolumns meta) ''geometry'' = Inr df"
    and parts: "snd (native_gpkg A) = meta" "snd (epsg4326_gpkg A) = meta_4326"
      "snd (flat_csv A) = df"
    by (rule wa_metadata_parts)
  from link_and_filter_datafile [OF link] obtain ds where
    ds: "lookup_col (gcolumns gdf) ''datafile'' = Inr ds"
    by (auto simp: repair_keeps_datafile)
  then have ds': "lookup_col (gcolumns (repair_crs (repair_geometry gdf))) ''datafile'' = Inr ds"
    by (simp add: repair_keeps_datafile)
  from link_and_filter_result(1) [OF link ds'] obtain fp where
    fp: "lookup_col (gcolumns meta) ''filepath'' = Inr fp"
    and notnull: "list_all (\<lambda>c. \<not> isnull c) fp"
    and len: "length fp = length ds - length (filter (unmatched lazfiles) ds)"
    and rows: "grows meta = length fp"
    by blast
  have "length ds = grows gdf" by (rule wf_lookup_length [OF assms(2) ds])
  with len have count: "length fp = grows gdf - length (filter (unmatched lazfiles) ds)" by simp
  have fp4326: "lookup_col (gcolumns meta_4326) ''filepath'' = Inr fp"
    using to_crs_result(1) [OF reproj, of "''filepath''"] fp by simp
  have rows4326: "grows meta_4326 = length fp"
    using to_crs_result(3) [OF reproj] rows by simp
  have fpcsv: "lookup_col df ''filepath'' = Inr fp"
    using drop_col_lookup [OF drop, of "''filepath''"] fp by simp
  from ds fp fp4326 fpcsv notnull count rows rows4326 parts show ?thesis by auto
qed

theorem persisted_rows_have_filepath_witness:
  "wa_metadata shift_transform example_lazfiles example_gdf ''/data/meta.gpkg''
     = Inr example_artifacts
   \<and> wf_geoframe example_gdf
   \<and> (\<exists>fp. lookup_col (gcolumns (snd (native_gpkg example_artifacts))) ''filepath'' = Inr fp
          \<and> lookup_col (snd (flat_csv example_artifacts)) ''filepath'' = Inr fp
          \<and> list_all (\<lambda>c. \<not> isnull c) fp
          \<and> length fp = 1
          \<and> grows (snd (native_gpkg example_artifacts)) = length fp)"
proof -
  from persisted_rows_have_filepath [OF example_run example_wf] obtain ds fp where
    ds: "lookup_col (gcolumns example_gdf) ''datafile'' = Inr ds"
    and fp: "lookup_col (gcolumns (snd (native_gpkg example_artifacts))) ''filepath'' = Inr fp"
      "lookup_col (snd (flat_csv example_artifacts)) ''filepath'' = Inr fp"
      "list_all (\<lambda>c. \<not> isnull c) fp"
      "grows (snd (native_gpkg example_artifacts)) = length fp"
    and len: "length fp = grows example_gdf - length (filter (unmatched example_lazfiles) ds)"
    by blast
  from ds have "ds = [CStr ''A_dn_001_extra.ext'', CStr ''C_dn_999_extra.ext'']"
    by (simp add: example_gdf_def)
  then have "length (filter (unmatched example_lazfiles) ds) = 1"
    by (simp add: linker_simps)
  with len have "length fp = 1" by (simp add: example_gdf_def)
  with fp example_run example_wf show ?thesis by blast
qed

text \<open>
  C9. The three files agree outside the geometry: dropping the geometry column from
  either vector file gives the columns of the CSV, so every other column, the row
  identifiers among them, holds the same values in the same order in all three; the
  reprojected file differs from the native one in the geometry column and the reference
  system only.
\<close>

theorem artifacts_agree_outside_geometry:
  assumes "wa_metadata tr lazfiles gdf gpkg_fn = Inr A"
  shows "drop_col (gcolumns (snd (native_gpkg A))) ''geometry'' = Inr (snd (flat_csv A))
    \<and> drop_col (gcolumns (snd (epsg4326_gpkg A))) ''geometry'' = Inr (snd (flat_csv A))
    \<and> (\<forall>n. n \<noteq> ''geometry'' \<longrightarrow>
          lookup_col (gcolumns (snd (epsg4326_gpkg A))) n
            = lookup_col (gcolumns (snd (native_gpkg A))) n
          \<and> lookup_col (snd (flat_csv A)) n = lookup_col (gcolumns (snd (native_gpkg A))) n)
    \<and> map fst (gcolumns (snd (native_gpkg A))) = metacols
    \<and> map fst (gcolumns (snd (epsg4326_gpkg A))) = metacols
    \<and> map fst (snd (flat_csv A)) = filter (\<lambda>n. n \<noteq> ''geometry'') metacols
    \<and> grows (snd (epsg4326_gpkg A)) = grows (snd (native_gpkg A))
    \<and> crs (snd (epsg4326_gpkg A)) = Some 4326
    \<and> crs (snd (native_gpkg A)) = crs (repair_crs gdf)"
proof -
  from assms obtain meta meta_4326 df where
    link: "link_and_filter lazfiles (repair_crs (repair_geometry gdf)) = Inr meta"
    and reproj: "to_crs tr 4326 meta = Inr meta_4326"
    and drop: "drop_col (gcolumns meta) ''geometry'' = Inr df"
    and parts: "snd (native_gpkg A) = meta" "snd (epsg4326_gpkg A) = meta_4326"
      "snd (flat_csv A) = df"
    by (rule wa_metadata_parts)
  from link_and_filter_datafile [OF link] obtain ds where
    ds: "lookup_col (gcolumns (repair_crs (repair_geometry gdf))) ''datafile'' = Inr ds"
    by blast
  have names: "map fst (gcolumns meta) = metacols"
    by (rule link_and_filter_result(2) [OF link ds])
  have crs_native: "crs meta = crs (repair_crs gdf)"
    using link_and_filter_result(3) [OF link ds]
    by (simp add: repair_crs_def repair_geometry_def split: option.splits)
  have drop4326: "drop_col (gcolumns meta_4326) ''geometry'' = Inr df"
    using drop to_crs_result(5,6) [OF reproj] by (simp add: drop_col_def split: if_splits)
  have same: "\<forall>n. n \<noteq> ''geometry'' \<longrightarrow>
          lookup_col (gcolumns meta_4326) n = lookup_col (gcolumns meta) n
          \<and> lookup_col df n = lookup_col (gcolumns meta) n"
    using to_crs_result(1) [OF reproj] drop_col_lookup [OF drop] by simp
  have dfcols: "df = filter (\<lambda>(m, vs). m \<noteq> ''geometry'') (gcolumns meta)"
    using drop by (simp add: drop_col_def split: if_splits)
  have "map fst (filter (\<lambda>(m, vs). m \<noteq> g) cols) = filter (\<lambda>n. n \<noteq> g) (map fst cols)"
    for cols :: "cell columns" and g
    by (induction cols) auto
  with dfcols names have csvnames: "map fst df = filter (\<lambda>n. n \<noteq> ''geometry'') metacols"
    by simp
  from drop drop4326 same names to_crs_result(2,3,4) [OF reproj] csvnames crs_native parts
  show ?thesis by simp
qed

theorem artifacts_agree_outside_geometry_witness:
  "drop_col (gcolumns (snd (native_gpkg example_artifacts))) ''geometry''
     = Inr (snd (flat_csv example_artifacts))
   \<and> drop_col (gcolumns (snd (epsg4326_gpkg example_artifacts))) ''geometry''
     = Inr (snd (flat_csv example_artifacts))
   \<and> lookup_col (gcolumns (snd (epsg4326_gpkg example_artifacts))) ''id''
     = lookup_col (gcolumns (snd (native_gpkg example_artifacts))) ''id''
   \<and> lookup_col (snd (flat_csv example_artifacts)) ''id'' = Inr [CInt 1]
   \<and> lookup_col (gcolumns (snd (native_gpkg example_artifacts))) ''geometry''
     = Inr [CGeom (Point 10 20)]
   \<and> lookup_col (gcolumns (snd (epsg4326_gpkg example_artifacts))) ''geometry''
     = Inr [CGeom (Point 11 21)]
   \<and> crs (snd (epsg4326_gpkg example_artifacts)) = Some 4326"
proof -
  note agree = artifacts_agree_outside_geometry [OF example_run]
  note native = conjunct1 [OF agree]
  note reprojected = conjunct1 [OF conjunct2 [OF agree]]
  note columns = conjunct1 [OF conjunct2 [OF conjunct2 [OF agree]]]
  have neq: "''id'' \<noteq> ''geometry''" by simp
  from columns have "''id'' \<noteq> ''geometry'' \<longrightarrow>
          lookup_col (gcolumns (snd (epsg4326_gpkg example_artifacts))) ''id''
            = lookup_col (gcolumns (snd (native_gpkg example_artifacts))) ''id''
          \<and> lookup_col (snd (flat_csv example_artifacts)) ''id''
            = lookup_col (gcolumns (snd (native_gpkg example_artifacts))) ''id''"
    by (rule spec)
  with neq have ids: "lookup_col (gcolumns (snd (epsg4326_gpkg example_artifacts))) ''id''
            = lookup_col (gcolumns (snd (native_gpkg example_artifacts))) ''id''
          \<and> lookup_col (snd (flat_csv example_artifacts)) ''id''
            = lookup_col (gcolumns (snd (native_gpkg example_artifacts))) ''id''"
    by (rule rev_mp)
  have id3: "lookup_col (gcolumns (snd (native_gpkg example_artifacts))) ''id'' = Inr [CInt 1]"
    by (simp add: example_artifacts_def)
  have csv: "lookup_col (snd (flat_csv example_artifacts)) ''id'' = Inr [CInt 1]"
    using conjunct2 [OF ids] id3 by (simp only:)
  have geo: "lookup_col (gcolumns (snd (native_gpkg example_artifacts))) ''geometry''
               = Inr [CGeom (Point 10 20)]"
    "lookup_col (gcolumns (snd (epsg4326_gpkg example_artifacts))) ''geometry''
               = Inr [CGeom (Point 11 21)]"
    by (simp_all add: example_artifacts_def)
  have crs4326: "crs (snd (epsg4326_gpkg example_artifacts)) = Some 4326"
    by (simp add: example_artifacts_def)
  show ?thesis
    by (intro conjI) (rule native, rule reprojected, rule conjunct1 [OF ids], rule csv,
      rule geo(1), rule geo(2), rule crs4326)
qed

end
